theory Spec2Isabelle
  imports Main "HOL-Library.Sublist" "HOL-Library.AList"
begin

section \<open>Student record validation (day\_4/day\_4\_helpers.py)\<close>

text \<open>
  The source declares five nested pydantic models and the composite model
  \<open>CannizzaroStudent\<close>. A model class is a record here, constructing a model from a raw
  mapping is a function into a sum type: \<open>Inl\<close> is the exception raised, \<open>Inr\<close> the value
  returned. The declarations of the source (\<open>Field(..., ge=0, le=20)\<close>, \<open>Literal[...]\<close>,
  \<open>List[str]\<close>, \<open>@field_validator\<close>, \<open>extra = "ignore"\<close>) are given the meaning the
  pydantic library (version 2, which \<open>field_validator\<close> requires) gives them.
\<close>

subsection \<open>Strings\<close>

text \<open>
  A character stands for a code point below 256, \<open>length\<close> is Python's \<open>len\<close>.
  \<open>str.lower\<close> maps A-Z and the upper-case letters of Latin-1 to their lower-case
  letters, \<open>str.strip\<close> removes Python's white space at both ends.
\<close>

definition py_lower_char :: "char \<Rightarrow> char" where
  "py_lower_char c =
     (let n = (of_char c :: nat)
      in if (65 \<le> n \<and> n \<le> 90) \<or> (192 \<le> n \<and> n \<le> 222 \<and> n \<noteq> 215)
         then char_of (n + 32) else c)"

definition py_isspace :: "char \<Rightarrow> bool" where
  "py_isspace c =
     (let n = (of_char c :: nat)
      in (9 \<le> n \<and> n \<le> 13) \<or> (28 \<le> n \<and> n \<le> 32) \<or> n = 133 \<or> n = 160)"

definition str_lower :: "string \<Rightarrow> string" where
  "str_lower s = map py_lower_char s"

definition str_strip :: "string \<Rightarrow> string" where
  "str_strip s = rev (dropWhile py_isspace (rev (dropWhile py_isspace s)))"

text \<open>\<open>repr\<close> of a string without quote, backslash or control character, and of a list
  of such strings: the form in which the messages print the vocabularies.\<close>

definition py_repr_str :: "string \<Rightarrow> string" where
  "py_repr_str s = [CHR 0x27] @ s @ [CHR 0x27]"

fun py_join :: "string \<Rightarrow> string list \<Rightarrow> string" where
  "py_join sep [] = []"
| "py_join sep [x] = x"
| "py_join sep (x # y # ys) = x @ sep @ py_join sep (y # ys)"

definition py_repr_list :: "string list \<Rightarrow> string" where
  "py_repr_list xs = ''['' @ py_join '', '' (map py_repr_str xs) @ '']''"

subsection \<open>Valid options for multi-select fields\<close>

definition VALID_SPORTS :: "string list" where
  "VALID_SPORTS =
     [''soccer'', ''basketball'', ''volleyball'', ''tennis'', ''swimming'',
      ''rowing'', ''running'', ''cycling'', ''skiing'', ''martial_arts'', ''none'']"

definition VALID_MUSIC_GENRES :: "string list" where
  "VALID_MUSIC_GENRES =
     [''pop'', ''rock'', ''hip_hop'', ''rap'', ''edm'', ''classical'', ''jazz'',
      ''r_and_b'', ''country'', ''metal'', ''indie'', ''latin'', ''kpop'', ''other'']"

definition VALID_HOBBIES :: "string list" where
  "VALID_HOBBIES =
     [''gaming'', ''reading'', ''cooking'', ''photography'', ''art'', ''music'',
      ''travel'', ''hiking'', ''movies'', ''anime'', ''programming'', ''hackathons'',
      ''fashion'', ''fitness'', ''social_media'', ''podcasts'', ''crafts'',
      ''volunteering'', ''languages'', ''writing'', ''none'']"

definition VALID_SUBJECTS :: "string list" where
  "VALID_SUBJECTS =
     [''math'', ''physics'', ''chemistry'', ''biology'', ''computer_science'',
      ''literature'', ''history'', ''art'', ''music'', ''economics'', ''philosophy'',
      ''physical_education'', ''foreign_languages'', ''engineering'', ''other'']"

definition ClassSectionType :: "string list" where
  "ClassSectionType = [''a'', ''b'', ''c'', ''d'', ''e'']"

definition WeekendStyleType :: "string list" where
  "WeekendStyleType = [''chill'', ''party'', ''explore'', ''study'']"

definition BestWorkTimeType :: "int list" where
  "BestWorkTimeType = [1, 2, 3, 4]"

definition HumorStyleType :: "string list" where
  "HumorStyleType = [''dry'', ''quirky'', ''dark'', ''basic'']"

subsection \<open>The field validators of the source\<close>

datatype value_error = ValueError string

text \<open>The loop \<open>for x in result: if x not in VOCAB: raise ValueError(msg(x))\<close>: the first
  element outside the vocabulary raises, and the loop ends there.\<close>

fun raise_first_absent :: "string list \<Rightarrow> (string \<Rightarrow> string) \<Rightarrow> string list \<Rightarrow> value_error option" where
  "raise_first_absent vocab msg [] = None"
| "raise_first_absent vocab msg (x # xs) =
     (if x \<notin> set vocab then Some (ValueError (msg x)) else raise_first_absent vocab msg xs)"

definition validate_subject :: "string \<Rightarrow> value_error + string" where
  "validate_subject v =
     (let v_lower = str_strip (str_lower v)
      in if v_lower \<notin> set VALID_SUBJECTS
         then Inl (ValueError (''favorite_subject must be one of '' @ py_repr_list VALID_SUBJECTS))
         else Inr v_lower)"

definition sport_msg :: "string \<Rightarrow> string" where
  "sport_msg sport =
     ''Invalid sport '' @ [CHR 0x27] @ sport @ [CHR 0x27] @ ''. Must be one of '' @ py_repr_list VALID_SPORTS"

definition genre_msg :: "string \<Rightarrow> string" where
  "genre_msg genre =
     ''Invalid music genre '' @ [CHR 0x27] @ genre @ [CHR 0x27] @ ''. Must be one of ''
       @ py_repr_list VALID_MUSIC_GENRES"

definition hobby_msg :: "string \<Rightarrow> string" where
  "hobby_msg hobby =
     ''Invalid hobby '' @ [CHR 0x27] @ hobby @ [CHR 0x27] @ ''. Must be one of '' @ py_repr_list VALID_HOBBIES"

definition validate_sports :: "string list \<Rightarrow> value_error + string list" where
  "validate_sports v =
     (let result = map (\<lambda>s. str_strip (str_lower s)) v
      in case raise_first_absent VALID_SPORTS sport_msg result of
           Some e \<Rightarrow> Inl e
         | None \<Rightarrow> Inr result)"

definition validate_genres :: "string list \<Rightarrow> value_error + string list" where
  "validate_genres v =
     (let result = map (\<lambda>g. str_strip (str_lower g)) v
      in case raise_first_absent VALID_MUSIC_GENRES genre_msg result of
           Some e \<Rightarrow> Inl e
         | None \<Rightarrow> Inr result)"

definition validate_hobbies :: "string list \<Rightarrow> value_error + string list" where
  "validate_hobbies v =
     (let result = map (\<lambda>h. str_strip (str_lower h)) v
      in case raise_first_absent VALID_HOBBIES hobby_msg result of
           Some e \<Rightarrow> Inl e
         | None \<Rightarrow> Inr result)"

subsection \<open>Raw input and validation errors\<close>

text \<open>
  The raw input is a tree of integers, strings, lists and mappings (an association list,
  looked up with \<open>map_of\<close>). Type coercion is the library's and is not modelled: a leaf of
  an integer field is \<open>RInt n\<close> when the library reads the integer \<open>n\<close> there, a leaf of a
  string field is \<open>RStr s\<close> when it reads the string \<open>s\<close>; a leaf of another shape stands
  for an input the declared type rejects.
\<close>

datatype raw = RInt int | RStr string | RList "raw list" | RDict "(string \<times> raw) list"

datatype loc_item = Key string | Idx nat

text \<open>The library's error types, as far as the declared constraints can raise them.\<close>

datatype error_type =
    missing
  | model_type
  | int_type
  | int_parsing_size
  | less_than_equal int
  | greater_than_equal int
  | greater_than int
  | string_type
  | string_too_short nat
  | string_too_long nat
  | literal_error
  | list_type
  | too_short nat
  | value_error string

datatype line_error = LineError (loc: "loc_item list") (etype: error_type)

datatype validation_error = ValidationError "line_error list"

type_synonym 'a validated = "line_error list + 'a"

definition errs :: "'a validated \<Rightarrow> line_error list" where
  "errs r = (case r of Inl es \<Rightarrow> es | Inr _ \<Rightarrow> [])"

definition at_loc :: "loc_item \<Rightarrow> line_error \<Rightarrow> line_error" where
  "at_loc i e = LineError (i # loc e) (etype e)"

subsection \<open>Field schemas\<close>

text \<open>\<open>int\<close> with \<open>ge\<close>, \<open>gt\<close>, \<open>le\<close>: the library checks \<open>le\<close>, then \<open>ge\<close>, then \<open>gt\<close>.\<close>

definition int_schema :: "int option \<Rightarrow> int option \<Rightarrow> int option \<Rightarrow> raw \<Rightarrow> int validated" where
  "int_schema ge gt le x =
     (case x of
        RInt n \<Rightarrow>
          (if (case le of Some b \<Rightarrow> \<not> n \<le> b | None \<Rightarrow> False)
             then Inl [LineError [] (less_than_equal (the le))]
           else if (case ge of Some b \<Rightarrow> \<not> b \<le> n | None \<Rightarrow> False)
             then Inl [LineError [] (greater_than_equal (the ge))]
           else if (case gt of Some b \<Rightarrow> \<not> b < n | None \<Rightarrow> False)
             then Inl [LineError [] (greater_than (the gt))]
           else Inr n)
      | _ \<Rightarrow> Inl [LineError [] int_type])"

text \<open>\<open>str\<close> with \<open>min_length\<close> and \<open>max_length\<close>, measured on the string as given.\<close>

definition str_schema :: "nat option \<Rightarrow> nat option \<Rightarrow> raw \<Rightarrow> string validated" where
  "str_schema min_length max_length x =
     (case x of
        RStr s \<Rightarrow>
          (if (case min_length of Some b \<Rightarrow> length s < b | None \<Rightarrow> False)
             then Inl [LineError [] (string_too_short (the min_length))]
           else if (case max_length of Some b \<Rightarrow> b < length s | None \<Rightarrow> False)
             then Inl [LineError [] (string_too_long (the max_length))]
           else Inr s)
      | _ \<Rightarrow> Inl [LineError [] string_type])"

text \<open>\<open>Literal[...]\<close>: the value itself must be one of the literals. For integer
  literals the library reads the value as a 64-bit integer first: an integer outside that
  range is an \<open>int_parsing_size\<close> error.\<close>

definition literal_str_schema :: "string list \<Rightarrow> raw \<Rightarrow> string validated" where
  "literal_str_schema expected x =
     (case x of
        RStr s \<Rightarrow> if s \<in> set expected then Inr s else Inl [LineError [] literal_error]
      | _ \<Rightarrow> Inl [LineError [] literal_error])"

definition literal_int_schema :: "int list \<Rightarrow> raw \<Rightarrow> int validated" where
  "literal_int_schema expected x =
     (case x of
        RInt n \<Rightarrow>
          (if n < - (2 ^ 63) \<or> 2 ^ 63 \<le> n then Inl [LineError [] int_parsing_size]
           else if n \<in> set expected then Inr n
           else Inl [LineError [] literal_error])
      | _ \<Rightarrow> Inl [LineError [] literal_error])"

text \<open>\<open>List[str]\<close> with \<open>min_length\<close>: every item is validated and the errors of all items
  are reported at their index; the length is checked when all items are strings.\<close>

fun str_items :: "nat \<Rightarrow> raw list \<Rightarrow> string list validated" where
  "str_items i [] = Inr []"
| "str_items i (x # xs) =
     (case (str_schema None None x, str_items (Suc i) xs) of
        (Inr s, Inr ss) \<Rightarrow> Inr (s # ss)
      | (r, rs) \<Rightarrow> Inl (map (at_loc (Idx i)) (errs r) @ errs rs))"

definition list_str_schema :: "nat \<Rightarrow> raw \<Rightarrow> string list validated" where
  "list_str_schema min_length x =
     (case x of
        RList xs \<Rightarrow>
          (case str_items 0 xs of
             Inl es \<Rightarrow> Inl es
           | Inr ss \<Rightarrow> if length ss < min_length then Inl [LineError [] (too_short min_length)] else Inr ss)
      | _ \<Rightarrow> Inl [LineError [] list_type])"

text \<open>\<open>@field_validator\<close> (mode after): the function runs on the value the field's type has
  accepted; a \<open>ValueError\<close> it raises becomes one \<open>value_error\<close> of the field.\<close>

definition field_validator :: "('a \<Rightarrow> value_error + 'b) \<Rightarrow> (raw \<Rightarrow> 'a validated) \<Rightarrow> raw \<Rightarrow> 'b validated" where
  "field_validator f schema x =
     (case schema x of
        Inl es \<Rightarrow> Inl es
      | Inr v \<Rightarrow> (case f v of Inl (ValueError m) \<Rightarrow> Inl [LineError [] (value_error m)] | Inr w \<Rightarrow> Inr w))"

text \<open>A required field (\<open>Field(...)\<close>, or an annotation without default): a missing key
  is one \<open>missing\<close> error at the field; the errors of the value are located under the field.\<close>

definition required :: "string \<Rightarrow> (raw \<Rightarrow> 'a validated) \<Rightarrow> (string \<times> raw) list \<Rightarrow> 'a validated" where
  "required k schema m =
     (case map_of m k of
        None \<Rightarrow> Inl [LineError [Key k] missing]
      | Some x \<Rightarrow> (case schema x of Inl es \<Rightarrow> Inl (map (at_loc (Key k)) es) | Inr v \<Rightarrow> Inr v))"

text \<open>A nested model takes a mapping; its fields are looked up by name.\<close>

definition model_schema :: "((string \<times> raw) list \<Rightarrow> 'a validated) \<Rightarrow> raw \<Rightarrow> 'a validated" where
  "model_schema fields x = (case x of RDict m \<Rightarrow> fields m | _ \<Rightarrow> Inl [LineError [] model_type])"

subsection \<open>Nested models for the student document\<close>

text \<open>The field \<open>alias\<close> of \<open>Demographics\<close> is \<open>alias_name\<close> here (\<open>alias\<close> is a
  keyword of Isabelle); its key in the raw mapping is \<open>alias\<close>.\<close>

record Demographics =
  alias_name :: string
  siblings :: int
  commute_time_min :: int
  class_section :: string
  hometown :: string

record Academics =
  academic_interest :: int
  favorite_subject :: string

record Behavioral =
  social_style :: int
  weekend_style :: string
  best_work_time :: int
  humor_style :: string

record Activities =
  sports :: "string list"
  music_genres :: "string list"
  hobbies :: "string list"

record DigitalMetrics =
  avg_screen_time_min :: int
  phone_pickups_daily :: int

record CannizzaroStudent =
  demographics :: Demographics
  academics :: Academics
  behavioral :: Behavioral
  activities :: Activities
  digital_metrics :: DigitalMetrics

definition alias_field :: "(string \<times> raw) list \<Rightarrow> string validated" where
  "alias_field = required ''alias'' (str_schema (Some 3) (Some 30))"

definition siblings_field :: "(string \<times> raw) list \<Rightarrow> int validated" where
  "siblings_field = required ''siblings'' (int_schema (Some 0) None (Some 20))"

definition commute_time_min_field :: "(string \<times> raw) list \<Rightarrow> int validated" where
  "commute_time_min_field = required ''commute_time_min'' (int_schema None (Some 0) (Some 180))"

definition class_section_field :: "(string \<times> raw) list \<Rightarrow> string validated" where
  "class_section_field = required ''class_section'' (literal_str_schema ClassSectionType)"

definition hometown_field :: "(string \<times> raw) list \<Rightarrow> string validated" where
  "hometown_field = required ''hometown'' (str_schema (Some 2) (Some 50))"

definition Demographics_fields :: "(string \<times> raw) list \<Rightarrow> Demographics validated" where
  "Demographics_fields m =
     (case (alias_field m, siblings_field m, commute_time_min_field m, class_section_field m,
            hometown_field m) of
        (Inr a, Inr s, Inr c, Inr cs, Inr h) \<Rightarrow>
          Inr \<lparr>alias_name = a, siblings = s, commute_time_min = c, class_section = cs, hometown = h\<rparr>
      | (a, s, c, cs, h) \<Rightarrow> Inl (errs a @ errs s @ errs c @ errs cs @ errs h))"

definition academic_interest_field :: "(string \<times> raw) list \<Rightarrow> int validated" where
  "academic_interest_field = required ''academic_interest'' (int_schema (Some 1) None (Some 5))"

definition favorite_subject_field :: "(string \<times> raw) list \<Rightarrow> string validated" where
  "favorite_subject_field =
     required ''favorite_subject'' (field_validator validate_subject (str_schema None None))"

definition Academics_fields :: "(string \<times> raw) list \<Rightarrow> Academics validated" where
  "Academics_fields m =
     (case (academic_interest_field m, favorite_subject_field m) of
        (Inr a, Inr f) \<Rightarrow> Inr \<lparr>academic_interest = a, favorite_subject = f\<rparr>
      | (a, f) \<Rightarrow> Inl (errs a @ errs f))"

definition social_style_field :: "(string \<times> raw) list \<Rightarrow> int validated" where
  "social_style_field = required ''social_style'' (int_schema (Some 1) None (Some 5))"

definition weekend_style_field :: "(string \<times> raw) list \<Rightarrow> string validated" where
  "weekend_style_field = required ''weekend_style'' (literal_str_schema WeekendStyleType)"

definition best_work_time_field :: "(string \<times> raw) list \<Rightarrow> int validated" where
  "best_work_time_field = required ''best_work_time'' (literal_int_schema BestWorkTimeType)"

definition humor_style_field :: "(string \<times> raw) list \<Rightarrow> string validated" where
  "humor_style_field = required ''humor_style'' (literal_str_schema HumorStyleType)"

definition Behavioral_fields :: "(string \<times> raw) list \<Rightarrow> Behavioral validated" where
  "Behavioral_fields m =
     (case (social_style_field m, weekend_style_field m, best_work_time_field m, humor_style_field m) of
        (Inr s, Inr w, Inr b, Inr h) \<Rightarrow>
          Inr \<lparr>social_style = s, weekend_style = w, best_work_time = b, humor_style = h\<rparr>
      | (s, w, b, h) \<Rightarrow> Inl (errs s @ errs w @ errs b @ errs h))"

definition sports_field :: "(string \<times> raw) list \<Rightarrow> string list validated" where
  "sports_field = required ''sports'' (field_validator validate_sports (list_str_schema 1))"

definition music_genres_field :: "(string \<times> raw) list \<Rightarrow> string list validated" where
  "music_genres_field = required ''music_genres'' (field_validator validate_genres (list_str_schema 1))"

definition hobbies_field :: "(string \<times> raw) list \<Rightarrow> string list validated" where
  "hobbies_field = required ''hobbies'' (field_validator validate_hobbies (list_str_schema 1))"

definition Activities_fields :: "(string \<times> raw) list \<Rightarrow> Activities validated" where
  "Activities_fields m =
     (case (sports_field m, music_genres_field m, hobbies_field m) of
        (Inr s, Inr g, Inr h) \<Rightarrow> Inr \<lparr>sports = s, music_genres = g, hobbies = h\<rparr>
      | (s, g, h) \<Rightarrow> Inl (errs s @ errs g @ errs h))"

definition avg_screen_time_min_field :: "(string \<times> raw) list \<Rightarrow> int validated" where
  "avg_screen_time_min_field = required ''avg_screen_time_min'' (int_schema (Some 0) None (Some 1440))"

definition phone_pickups_daily_field :: "(string \<times> raw) list \<Rightarrow> int validated" where
  "phone_pickups_daily_field = required ''phone_pickups_daily'' (int_schema (Some 0) None (Some 500))"

definition DigitalMetrics_fields :: "(string \<times> raw) list \<Rightarrow> DigitalMetrics validated" where
  "DigitalMetrics_fields m =
     (case (avg_screen_time_min_field m, phone_pickups_daily_field m) of
        (Inr a, Inr p) \<Rightarrow> Inr \<lparr>avg_screen_time_min = a, phone_pickups_daily = p\<rparr>
      | (a, p) \<Rightarrow> Inl (errs a @ errs p))"

subsection \<open>Main student model\<close>

definition demographics_field :: "(string \<times> raw) list \<Rightarrow> Demographics validated" where
  "demographics_field = required ''demographics'' (model_schema Demographics_fields)"

definition academics_field :: "(string \<times> raw) list \<Rightarrow> Academics validated" where
  "academics_field = required ''academics'' (model_schema Academics_fields)"

definition behavioral_field :: "(string \<times> raw) list \<Rightarrow> Behavioral validated" where
  "behavioral_field = required ''behavioral'' (model_schema Behavioral_fields)"

definition activities_field :: "(string \<times> raw) list \<Rightarrow> Activities validated" where
  "activities_field = required ''activities'' (model_schema Activities_fields)"

definition digital_metrics_field :: "(string \<times> raw) list \<Rightarrow> DigitalMetrics validated" where
  "digital_metrics_field = required ''digital_metrics'' (model_schema DigitalMetrics_fields)"

text \<open>With \<open>extra = "ignore"\<close> only the declared fields are looked up; any other key of
  the mapping is never read.\<close>

definition CannizzaroStudent_fields :: "(string \<times> raw) list \<Rightarrow> CannizzaroStudent validated" where
  "CannizzaroStudent_fields m =
     (case (demographics_field m, academics_field m, behavioral_field m, activities_field m,
            digital_metrics_field m) of
        (Inr d, Inr a, Inr b, Inr act, Inr dm) \<Rightarrow>
          Inr \<lparr>demographics = d, academics = a, behavioral = b, activities = act, digital_metrics = dm\<rparr>
      | (d, a, b, act, dm) \<Rightarrow> Inl (errs d @ errs a @ errs b @ errs act @ errs dm))"

text \<open>\<open>CannizzaroStudent(**raw)\<close>: the instance is returned, or the errors of all fields
  are raised in one \<open>ValidationError\<close>.\<close>

definition CannizzaroStudent_init :: "(string \<times> raw) list \<Rightarrow> validation_error + CannizzaroStudent" where
  "CannizzaroStudent_init raw =
     (case CannizzaroStudent_fields raw of
        Inl es \<Rightarrow> Inl (ValidationError es)
      | Inr student \<Rightarrow> Inr student)"

subsection \<open>Inputs and notions the properties are stated with\<close>

text \<open>The kinds of error of the specification (its section 7), as a reading of the
  library's error types. A \<open>value_error\<close> comes from a field validator of the source: of
  the vocabulary lists, or of \<open>favorite_subject\<close>.\<close>

datatype spec_kind =
  MissingField | TypeMismatch | OutOfRange | TooShort | TooLong | InvalidEnum | InvalidVocabularyMember

fun kind_of :: "line_error \<Rightarrow> spec_kind" where
  "kind_of (LineError l missing) = MissingField"
| "kind_of (LineError l model_type) = TypeMismatch"
| "kind_of (LineError l int_type) = TypeMismatch"
| "kind_of (LineError l int_parsing_size) = TypeMismatch"
| "kind_of (LineError l (less_than_equal b)) = OutOfRange"
| "kind_of (LineError l (greater_than_equal b)) = OutOfRange"
| "kind_of (LineError l (greater_than b)) = OutOfRange"
| "kind_of (LineError l string_type) = TypeMismatch"
| "kind_of (LineError l (string_too_short b)) = TooShort"
| "kind_of (LineError l (string_too_long b)) = TooLong"
| "kind_of (LineError l literal_error) = InvalidEnum"
| "kind_of (LineError l list_type) = TypeMismatch"
| "kind_of (LineError l (too_short b)) = TooShort"
| "kind_of (LineError l (value_error m)) =
     (if l = [Key ''academics'', Key ''favorite_subject''] then InvalidEnum else InvalidVocabularyMember)"

text \<open>A raw mapping that validates, and the same with other values in one place.\<close>

definition sample_demographics :: "(string \<times> raw) list" where
  "sample_demographics =
     [(''alias'', RStr ''Bob''), (''siblings'', RInt 2), (''commute_time_min'', RInt 25),
      (''class_section'', RStr ''a''), (''hometown'', RStr ''Catania'')]"

definition sample_academics :: "(string \<times> raw) list" where
  "sample_academics = [(''academic_interest'', RInt 4), (''favorite_subject'', RStr ''Math'')]"

definition sample_behavioral :: "(string \<times> raw) list" where
  "sample_behavioral =
     [(''social_style'', RInt 3), (''weekend_style'', RStr ''chill''),
      (''best_work_time'', RInt 2), (''humor_style'', RStr ''dry'')]"

definition sample_activities :: "(string \<times> raw) list" where
  "sample_activities =
     [(''sports'', RList [RStr ''Soccer'', RStr ''TENNIS'']),
      (''music_genres'', RList [RStr ''jazz'']), (''hobbies'', RList [RStr ''reading''])]"

definition sample_digital_metrics :: "(string \<times> raw) list" where
  "sample_digital_metrics = [(''avg_screen_time_min'', RInt 120), (''phone_pickups_daily'', RInt 40)]"

definition sample_raw :: "(string \<times> raw) list" where
  "sample_raw =
     [(''demographics'', RDict sample_demographics), (''academics'', RDict sample_academics),
      (''behavioral'', RDict sample_behavioral), (''activities'', RDict sample_activities),
      (''digital_metrics'', RDict sample_digital_metrics)]"

definition sample_student :: CannizzaroStudent where
  "sample_student =
     \<lparr>demographics = \<lparr>alias_name = ''Bob'', siblings = 2, commute_time_min = 25,
                       class_section = ''a'', hometown = ''Catania''\<rparr>,
      academics = \<lparr>academic_interest = 4, favorite_subject = ''math''\<rparr>,
      behavioral = \<lparr>social_style = 3, weekend_style = ''chill'', best_work_time = 2,
                     humor_style = ''dry''\<rparr>,
      activities = \<lparr>sports = [''soccer'', ''tennis''], music_genres = [''jazz''],
                     hobbies = [''reading'']\<rparr>,
      digital_metrics = \<lparr>avg_screen_time_min = 120, phone_pickups_daily = 40\<rparr>\<rparr>"

text \<open>\<open>raw[g][f] = v\<close>, for a group \<open>g\<close> that is a mapping.\<close>

definition set_field :: "string \<Rightarrow> string \<Rightarrow> raw \<Rightarrow> (string \<times> raw) list \<Rightarrow> (string \<times> raw) list" where
  "set_field g f v raw =
     (case map_of raw g of
        Some (RDict m) \<Rightarrow> AList.update g (RDict (AList.update f v m)) raw
      | _ \<Rightarrow> raw)"

definition group_keys :: "string list" where
  "group_keys = [''demographics'', ''academics'', ''behavioral'', ''activities'', ''digital_metrics'']"

text \<open>The integer fields with their declared bounds: group, field, least and greatest
  value accepted.\<close>

definition int_bounds :: "(string \<times> string \<times> int \<times> int) list" where
  "int_bounds =
     [(''demographics'', ''siblings'', 0, 20), (''demographics'', ''commute_time_min'', 1, 180),
      (''academics'', ''academic_interest'', 1, 5), (''behavioral'', ''social_style'', 1, 5),
      (''digital_metrics'', ''avg_screen_time_min'', 0, 1440),
      (''digital_metrics'', ''phone_pickups_daily'', 0, 500)]"

text \<open>The declared constraints, as a predicate on a student record.\<close>

definition declared_constraints :: "CannizzaroStudent \<Rightarrow> bool" where
  "declared_constraints r \<longleftrightarrow>
     3 \<le> length (alias_name (demographics r)) \<and> length (alias_name (demographics r)) \<le> 30
     \<and> 0 \<le> siblings (demographics r) \<and> siblings (demographics r) \<le> 20
     \<and> 0 < commute_time_min (demographics r) \<and> commute_time_min (demographics r) \<le> 180
     \<and> class_section (demographics r) \<in> set ClassSectionType
     \<and> 2 \<le> length (hometown (demographics r)) \<and> length (hometown (demographics r)) \<le> 50
     \<and> 1 \<le> academic_interest (academics r) \<and> academic_interest (academics r) \<le> 5
     \<and> favorite_subject (academics r) \<in> set VALID_SUBJECTS
     \<and> str_strip (str_lower (favorite_subject (academics r))) = favorite_subject (academics r)
     \<and> 1 \<le> social_style (behavioral r) \<and> social_style (behavioral r) \<le> 5
     \<and> weekend_style (behavioral r) \<in> set WeekendStyleType
     \<and> best_work_time (behavioral r) \<in> set BestWorkTimeType
     \<and> humor_style (behavioral r) \<in> set HumorStyleType
     \<and> sports (activities r) \<noteq> [] \<and> set (sports (activities r)) \<subseteq> set VALID_SPORTS
     \<and> map (\<lambda>s. str_strip (str_lower s)) (sports (activities r)) = sports (activities r)
     \<and> music_genres (activities r) \<noteq> []
     \<and> set (music_genres (activities r)) \<subseteq> set VALID_MUSIC_GENRES
     \<and> map (\<lambda>s. str_strip (str_lower s)) (music_genres (activities r)) = music_genres (activities r)
     \<and> hobbies (activities r) \<noteq> [] \<and> set (hobbies (activities r)) \<subseteq> set VALID_HOBBIES
     \<and> map (\<lambda>s. str_strip (str_lower s)) (hobbies (activities r)) = hobbies (activities r)
     \<and> 0 \<le> avg_screen_time_min (digital_metrics r) \<and> avg_screen_time_min (digital_metrics r) \<le> 1440
     \<and> 0 \<le> phone_pickups_daily (digital_metrics r) \<and> phone_pickups_daily (digital_metrics r) \<le> 500"

text \<open>Normalization of a raw mapping, for the comparison of \<open>validate(R)\<close> with
  \<open>validate(normalize(R))\<close>: the strings, and the strings of the lists, under the given
  keys of a group are lower-cased and stripped. \<open>normalize_spec\<close> is the normalization of the
  specification, on all fields that are strings or lists of strings;
  \<open>normalize_validated\<close> leaves \<open>alias\<close> and \<open>hometown\<close> as they are.\<close>

definition norm_raw :: "raw \<Rightarrow> raw" where
  "norm_raw x =
     (case x of
        RStr s \<Rightarrow> RStr (str_strip (str_lower s))
      | RList xs \<Rightarrow> RList (map (\<lambda>y. case y of RStr s \<Rightarrow> RStr (str_strip (str_lower s)) | _ \<Rightarrow> y) xs)
      | _ \<Rightarrow> x)"

definition normalize_group :: "string list \<Rightarrow> raw \<Rightarrow> raw" where
  "normalize_group ks x =
     (case x of
        RDict m \<Rightarrow> RDict (map (\<lambda>(k, v). (k, if k \<in> set ks then norm_raw v else v)) m)
      | _ \<Rightarrow> x)"

definition normalize_record :: "string list \<Rightarrow> (string \<times> raw) list \<Rightarrow> (string \<times> raw) list" where
  "normalize_record demographics_keys raw =
     map (\<lambda>(g, x).
            (g, if g = ''demographics'' then normalize_group demographics_keys x
                else if g = ''academics'' then normalize_group [''favorite_subject''] x
                else if g = ''behavioral'' then normalize_group [''weekend_style'', ''humor_style''] x
                else if g = ''activities'' then normalize_group [''sports'', ''music_genres'', ''hobbies''] x
                else x))
         raw"

definition normalize_spec :: "(string \<times> raw) list \<Rightarrow> (string \<times> raw) list" where
  "normalize_spec = normalize_record [''alias'', ''class_section'', ''hometown'']"

definition normalize_validated :: "(string \<times> raw) list \<Rightarrow> (string \<times> raw) list" where
  "normalize_validated = normalize_record [''class_section'']"

text \<open>\<open>raw[g][f]\<close>, when the group and the field are there.\<close>

definition get_field :: "string \<Rightarrow> string \<Rightarrow> (string \<times> raw) list \<Rightarrow> raw option" where
  "get_field g f raw = (case map_of raw g of Some (RDict m) \<Rightarrow> map_of m f | _ \<Rightarrow> None)"

text \<open>The models are declared without \<open>frozen\<close> and without \<open>validate_assignment\<close>:
  an assignment to an attribute of an instance, as \<open>student.activities.sports = v\<close> or
  \<open>student.demographics.siblings = n\<close>, stores the value as it is; no validator runs.\<close>

definition assign_sports :: "string list \<Rightarrow> CannizzaroStudent \<Rightarrow> CannizzaroStudent" where
  "assign_sports v student = student\<lparr>activities := (activities student)\<lparr>sports := v\<rparr>\<rparr>"

definition assign_siblings :: "int \<Rightarrow> CannizzaroStudent \<Rightarrow> CannizzaroStudent" where
  "assign_siblings n student = student\<lparr>demographics := (demographics student)\<lparr>siblings := n\<rparr>\<rparr>"

text \<open>An error result is never an empty list.\<close>

definition some_error :: "'a validated \<Rightarrow> bool" where
  "some_error r \<longleftrightarrow> (isl r \<longrightarrow> errs r \<noteq> [])"

section \<open>Properties\<close>

subsection \<open>A model accepts when all its fields do, and collects the errors of all\<close>

lemma errs_simps [simp]: "errs (Inl es) = es" "errs (Inr v) = []"
  by (simp_all add: errs_def)

lemma Inl_iff_errs: "r = Inl es \<longleftrightarrow> isl r \<and> errs r = es"
  by (cases r) auto

lemma Demographics_fields_Inr:
  "Demographics_fields m = Inr d \<longleftrightarrow>
     alias_field m = Inr (alias_name d) \<and> siblings_field m = Inr (siblings d)
     \<and> commute_time_min_field m = Inr (commute_time_min d)
     \<and> class_section_field m = Inr (class_section d) \<and> hometown_field m = Inr (hometown d)"
  by (cases d) (auto simp: Demographics_fields_def split: sum.splits)

lemma Demographics_fields_errs:
  "errs (Demographics_fields m) =
     errs (alias_field m) @ errs (siblings_field m) @ errs (commute_time_min_field m)
     @ errs (class_section_field m) @ errs (hometown_field m)"
  by (simp add: Demographics_fields_def split: sum.splits)

lemma Demographics_fields_isl:
  "isl (Demographics_fields m) \<longleftrightarrow>
     isl (alias_field m) \<or> isl (siblings_field m) \<or> isl (commute_time_min_field m)
     \<or> isl (class_section_field m) \<or> isl (hometown_field m)"
  by (simp add: Demographics_fields_def split: sum.splits)

lemma Academics_fields_Inr:
  "Academics_fields m = Inr d \<longleftrightarrow>
     academic_interest_field m = Inr (academic_interest d)
     \<and> favorite_subject_field m = Inr (favorite_subject d)"
  by (cases d) (auto simp: Academics_fields_def split: sum.splits)

lemma Academics_fields_errs:
  "errs (Academics_fields m) = errs (academic_interest_field m) @ errs (favorite_subject_field m)"
  by (simp add: Academics_fields_def split: sum.splits)

lemma Academics_fields_isl:
  "isl (Academics_fields m) \<longleftrightarrow> isl (academic_interest_field m) \<or> isl (favorite_subject_field m)"
  by (simp add: Academics_fields_def split: sum.splits)

lemma Behavioral_fields_Inr:
  "Behavioral_fields m = Inr d \<longleftrightarrow>
     social_style_field m = Inr (social_style d) \<and> weekend_style_field m = Inr (weekend_style d)
     \<and> best_work_time_field m = Inr (best_work_time d) \<and> humor_style_field m = Inr (humor_style d)"
  by (cases d) (auto simp: Behavioral_fields_def split: sum.splits)

lemma Behavioral_fields_errs:
  "errs (Behavioral_fields m) =
     errs (social_style_field m) @ errs (weekend_style_field m) @ errs (best_work_time_field m)
     @ errs (humor_style_field m)"
  by (simp add: Behavioral_fields_def split: sum.splits)

lemma Behavioral_fields_isl:
  "isl (Behavioral_fields m) \<longleftrightarrow>
     isl (social_style_field m) \<or> isl (weekend_style_field m) \<or> isl (best_work_time_field m)
     \<or> isl (humor_style_field m)"
  by (simp add: Behavioral_fields_def split: sum.splits)

lemma Activities_fields_Inr:
  "Activities_fields m = Inr d \<longleftrightarrow>
     sports_field m = Inr (sports d) \<and> music_genres_field m = Inr (music_genres d)
     \<and> hobbies_field m = Inr (hobbies d)"
  by (cases d) (auto simp: Activities_fields_def split: sum.splits)

lemma Activities_fields_errs:
  "errs (Activities_fields m) =
     errs (sports_field m) @ errs (music_genres_field m) @ errs (hobbies_field m)"
  by (simp add: Activities_fields_def split: sum.splits)

lemma Activities_fields_isl:
  "isl (Activities_fields m) \<longleftrightarrow>
     isl (sports_field m) \<or> isl (music_genres_field m) \<or> isl (hobbies_field m)"
  by (simp add: Activities_fields_def split: sum.splits)

lemma DigitalMetrics_fields_Inr:
  "DigitalMetrics_fields m = Inr d \<longleftrightarrow>
     avg_screen_time_min_field m = Inr (avg_screen_time_min d)
     \<and> phone_pickups_daily_field m = Inr (phone_pickups_daily d)"
  by (cases d) (auto simp: DigitalMetrics_fields_def split: sum.splits)

lemma DigitalMetrics_fields_errs:
  "errs (DigitalMetrics_fields m) =
     errs (avg_screen_time_min_field m) @ errs (phone_pickups_daily_field m)"
  by (simp add: DigitalMetrics_fields_def split: sum.splits)

lemma DigitalMetrics_fields_isl:
  "isl (DigitalMetrics_fields m) \<longleftrightarrow>
     isl (avg_screen_time_min_field m) \<or> isl (phone_pickups_daily_field m)"
  by (simp add: DigitalMetrics_fields_def split: sum.splits)

lemma CannizzaroStudent_fields_Inr:
  "CannizzaroStudent_fields raw = Inr r \<longleftrightarrow>
     demographics_field raw = Inr (demographics r) \<and> academics_field raw = Inr (academics r)
     \<and> behavioral_field raw = Inr (behavioral r) \<and> activities_field raw = Inr (activities r)
     \<and> digital_metrics_field raw = Inr (digital_metrics r)"
  by (cases r) (auto simp: CannizzaroStudent_fields_def split: sum.splits)

lemma CannizzaroStudent_fields_errs:
  "errs (CannizzaroStudent_fields raw) =
     errs (demographics_field raw) @ errs (academics_field raw) @ errs (behavioral_field raw)
     @ errs (activities_field raw) @ errs (digital_metrics_field raw)"
  by (simp add: CannizzaroStudent_fields_def split: sum.splits)

lemma CannizzaroStudent_fields_isl:
  "isl (CannizzaroStudent_fields raw) \<longleftrightarrow>
     isl (demographics_field raw) \<or> isl (academics_field raw) \<or> isl (behavioral_field raw)
     \<or> isl (activities_field raw) \<or> isl (digital_metrics_field raw)"
  by (simp add: CannizzaroStudent_fields_def split: sum.splits)

lemma CannizzaroStudent_init_Inr:
  "CannizzaroStudent_init raw = Inr r \<longleftrightarrow> CannizzaroStudent_fields raw = Inr r"
  by (simp add: CannizzaroStudent_init_def split: sum.splits)

lemma CannizzaroStudent_init_Inl:
  "CannizzaroStudent_init raw = Inl (ValidationError es) \<longleftrightarrow> CannizzaroStudent_fields raw = Inl es"
  by (simp add: CannizzaroStudent_init_def split: sum.splits)

subsection \<open>Required fields and nested models\<close>

lemma required_missing: "map_of m k = None \<Longrightarrow> required k schema m = Inl [LineError [Key k] missing]"
  by (simp add: required_def)

lemma required_cong: "map_of m k = map_of m' k \<Longrightarrow> required k schema m = required k schema m'"
  by (simp add: required_def)

lemma required_Some:
  "map_of m k = Some x \<Longrightarrow>
   required k schema m = (case schema x of Inl es \<Rightarrow> Inl (map (at_loc (Key k)) es) | Inr v \<Rightarrow> Inr v)"
  by (simp add: required_def)

lemma required_errs_loc: "e \<in> set (errs (required k schema m)) \<Longrightarrow> \<exists>l. loc e = Key k # l"
  by (auto simp: required_def at_loc_def split: option.splits sum.splits)

lemma filter_errs_other:
  assumes "k \<noteq> g"
  shows "filter (\<lambda>e. prefix [Key g] (loc e)) (errs (required k schema m)) = []"
proof -
  have "\<not> prefix [Key g] (loc e)" if "e \<in> set (errs (required k schema m))" for e
    using required_errs_loc [OF that] assms by auto
  then show ?thesis by (simp add: filter_empty_conv)
qed

lemma model_schema_errs:
  "map_of raw g = Some (RDict m) \<Longrightarrow>
   errs (required g (model_schema flds) raw) = map (at_loc (Key g)) (errs (flds m))"
  by (simp add: required_def model_schema_def split: sum.splits)

lemma model_schema_Inr:
  "required g (model_schema flds) raw = Inr d \<longleftrightarrow>
     (\<exists>m. map_of raw g = Some (RDict m) \<and> flds m = Inr d)"
  by (auto simp: required_def model_schema_def split: sum.splits option.splits raw.splits)

lemma some_error_int: "some_error (int_schema ge gt le x)"
  by (simp add: some_error_def int_schema_def split: raw.splits)

lemma some_error_str: "some_error (str_schema a b x)"
  by (simp add: some_error_def str_schema_def split: raw.splits)

lemma some_error_literal_str: "some_error (literal_str_schema ex x)"
  by (simp add: some_error_def literal_str_schema_def split: raw.splits)

lemma some_error_literal_int: "some_error (literal_int_schema ex x)"
  by (simp add: some_error_def literal_int_schema_def split: raw.splits)

lemma some_error_str_items: "some_error (str_items i xs)"
proof (induction xs arbitrary: i)
  case Nil
  show ?case by (simp add: some_error_def)
next
  case (Cons x xs)
  have a: "some_error (str_schema None None x)" by (rule some_error_str)
  have b: "some_error (str_items (Suc i) xs)" by (rule Cons.IH)
  show ?case using a b
    by (cases "str_schema None None x"; cases "str_items (Suc i) xs") (auto simp: some_error_def)
qed

lemma some_error_list_str: "some_error (list_str_schema n x)"
proof (cases x)
  case (RList xs)
  with some_error_str_items [of 0 xs] show ?thesis
    by (cases "str_items 0 xs") (auto simp: some_error_def list_str_schema_def)
qed (simp_all add: some_error_def list_str_schema_def)

lemma some_error_field_validator:
  assumes "\<And>y. some_error (schema y)"
  shows "some_error (field_validator f schema x)"
  using assms [of x]
  by (cases "schema x") (auto simp: some_error_def field_validator_def split: sum.splits value_error.splits)

lemma some_error_required:
  assumes "\<And>y. some_error (schema y)"
  shows "some_error (required k schema m)"
proof (cases "map_of m k")
  case None
  then show ?thesis by (simp add: some_error_def required_def)
next
  case (Some x)
  with assms [of x] show ?thesis
    by (cases "schema x") (auto simp: some_error_def required_def)
qed

subsection \<open>Top-level keys\<close>

text \<open>
  C4. For a raw mapping that validates, adding a top-level key that is not one of the five
  group keys (such as \<open>_id\<close>) changes nothing: construction succeeds with the same record,
  which has the five fields of the model and no other.
\<close>

theorem extra_key_ignored:
  assumes "k \<notin> set group_keys" and "CannizzaroStudent_init raw = Inr r"
  shows "CannizzaroStudent_init (AList.update k v raw) = Inr r
         \<and> CannizzaroStudent_init ((k, v) # raw) = Inr r"
proof -
  have "map_of (AList.update k v raw) g = map_of raw g \<and> map_of ((k, v) # raw) g = map_of raw g"
    if "g \<in> set group_keys" for g
    using that assms(1) by (auto simp: update_conv')
  then have "CannizzaroStudent_fields (AList.update k v raw) = CannizzaroStudent_fields raw
             \<and> CannizzaroStudent_fields ((k, v) # raw) = CannizzaroStudent_fields raw"
    unfolding CannizzaroStudent_fields_def demographics_field_def academics_field_def
      behavioral_field_def activities_field_def digital_metrics_field_def required_def
    by (simp add: group_keys_def)
  with assms(2) show ?thesis by (simp add: CannizzaroStudent_init_def)
qed

text \<open>The sample mapping with the key \<open>_id\<close> added.\<close>

theorem extra_key_ignored_witness:
  "''_id'' \<notin> set group_keys \<and> CannizzaroStudent_init sample_raw = Inr sample_student
   \<and> CannizzaroStudent_init (AList.update ''_id'' (RStr ''abc123'') sample_raw) = Inr sample_student
   \<and> CannizzaroStudent_init ((''_id'', RStr ''abc123'') # sample_raw) = Inr sample_student"
proof -
  have a: "''_id'' \<notin> set group_keys" by code_simp
  have b: "CannizzaroStudent_init sample_raw = Inr sample_student" by code_simp
  show ?thesis using a b extra_key_ignored [OF a b, of "RStr ''abc123''"] by simp
qed

text \<open>
  C3 (as amended). When one of the five group keys is absent from the raw mapping,
  construction raises, and the errors located under that group are exactly one \<open>missing\<close>
  error whose path is the group itself: there is no error per field of the group.
\<close>

theorem missing_group_one_error:
  assumes "g \<in> set group_keys" and "map_of raw g = None"
  shows "\<exists>es. CannizzaroStudent_init raw = Inl (ValidationError es)
           \<and> filter (\<lambda>e. prefix [Key g] (loc e)) es = [LineError [Key g] missing]"
proof -
  let ?P = "\<lambda>e. prefix [Key g] (loc e)"
  let ?es = "errs (CannizzaroStudent_fields raw)"
  have isl: "isl (CannizzaroStudent_fields raw)"
    using assms
    by (auto simp: required_missing CannizzaroStudent_fields_isl group_keys_def demographics_field_def
        academics_field_def behavioral_field_def activities_field_def digital_metrics_field_def)
  have "filter ?P ?es = [LineError [Key g] missing]"
    using assms
    by (auto simp: required_missing CannizzaroStudent_fields_errs group_keys_def demographics_field_def
        academics_field_def behavioral_field_def activities_field_def digital_metrics_field_def
        filter_errs_other)
  moreover have "CannizzaroStudent_init raw = Inl (ValidationError ?es)"
    using isl by (simp add: CannizzaroStudent_init_Inl Inl_iff_errs)
  ultimately show ?thesis by blast
qed


text \<open>The sample mapping without \<open>activities\<close>.\<close>

theorem missing_group_one_error_witness:
  "''activities'' \<in> set group_keys
   \<and> map_of (AList.delete ''activities'' sample_raw) ''activities'' = None
   \<and> (\<exists>es. CannizzaroStudent_init (AList.delete ''activities'' sample_raw) = Inl (ValidationError es)
          \<and> filter (\<lambda>e. prefix [Key ''activities''] (loc e)) es = [LineError [Key ''activities''] missing])"
proof -
  have a: "''activities'' \<in> set group_keys" by code_simp
  have b: "map_of (AList.delete ''activities'' sample_raw) ''activities'' = None" by code_simp
  show ?thesis using a b missing_group_one_error [OF a b] by simp
qed

text \<open>C3 as stated fails: without \<open>activities\<close> the errors raised are one error at
  \<open>activities\<close>, not three at \<open>activities.sports\<close>, \<open>activities.music_genres\<close> and
  \<open>activities.hobbies\<close>.\<close>

theorem missing_group_counterexample:
  "CannizzaroStudent_init (AList.delete ''activities'' sample_raw)
     = Inl (ValidationError [LineError [Key ''activities''] missing])"
  by code_simp

subsection \<open>Errors of all fields and groups are collected\<close>

lemma some_error_Demographics: "some_error (Demographics_fields m)"
  using some_error_required [of "str_schema (Some 3) (Some 30)" "''alias''" m, OF some_error_str]
    some_error_required [of "int_schema (Some 0) None (Some 20)" "''siblings''" m, OF some_error_int]
    some_error_required [of "int_schema None (Some 0) (Some 180)" "''commute_time_min''" m, OF some_error_int]
    some_error_required [of "literal_str_schema ClassSectionType" "''class_section''" m, OF some_error_literal_str]
    some_error_required [of "str_schema (Some 2) (Some 50)" "''hometown''" m, OF some_error_str]
  by (auto simp: some_error_def Demographics_fields_isl Demographics_fields_errs alias_field_def
      siblings_field_def commute_time_min_field_def class_section_field_def hometown_field_def)

lemma some_error_Academics: "some_error (Academics_fields m)"
  using some_error_required [of "int_schema (Some 1) None (Some 5)" "''academic_interest''" m, OF some_error_int]
    some_error_required [of "field_validator validate_subject (str_schema None None)" "''favorite_subject''" m,
      OF some_error_field_validator, OF some_error_str]
  by (auto simp: some_error_def Academics_fields_isl Academics_fields_errs academic_interest_field_def
      favorite_subject_field_def)

lemma some_error_Behavioral: "some_error (Behavioral_fields m)"
  using some_error_required [of "int_schema (Some 1) None (Some 5)" "''social_style''" m, OF some_error_int]
    some_error_required [of "literal_str_schema WeekendStyleType" "''weekend_style''" m, OF some_error_literal_str]
    some_error_required [of "literal_int_schema BestWorkTimeType" "''best_work_time''" m, OF some_error_literal_int]
    some_error_required [of "literal_str_schema HumorStyleType" "''humor_style''" m, OF some_error_literal_str]
  by (auto simp: some_error_def Behavioral_fields_isl Behavioral_fields_errs social_style_field_def
      weekend_style_field_def best_work_time_field_def humor_style_field_def)

lemma some_error_Activities: "some_error (Activities_fields m)"
  using some_error_required [of "field_validator validate_sports (list_str_schema 1)" "''sports''" m,
      OF some_error_field_validator, OF some_error_list_str]
    some_error_required [of "field_validator validate_genres (list_str_schema 1)" "''music_genres''" m,
      OF some_error_field_validator, OF some_error_list_str]
    some_error_required [of "field_validator validate_hobbies (list_str_schema 1)" "''hobbies''" m,
      OF some_error_field_validator, OF some_error_list_str]
  by (auto simp: some_error_def Activities_fields_isl Activities_fields_errs sports_field_def
      music_genres_field_def hobbies_field_def)

lemma some_error_DigitalMetrics: "some_error (DigitalMetrics_fields m)"
  using some_error_required [of "int_schema (Some 0) None (Some 1440)" "''avg_screen_time_min''" m, OF some_error_int]
    some_error_required [of "int_schema (Some 0) None (Some 500)" "''phone_pickups_daily''" m, OF some_error_int]
  by (auto simp: some_error_def DigitalMetrics_fields_isl DigitalMetrics_fields_errs
      avg_screen_time_min_field_def phone_pickups_daily_field_def)

lemma some_error_model:
  assumes "\<And>m. some_error (flds m)"
  shows "some_error (model_schema flds x)"
  using assms by (cases x) (simp_all add: model_schema_def some_error_def)

lemma some_error_CannizzaroStudent: "some_error (CannizzaroStudent_fields raw)"
  using some_error_required [of "model_schema Demographics_fields" "''demographics''" raw,
      OF some_error_model, OF some_error_Demographics]
    some_error_required [of "model_schema Academics_fields" "''academics''" raw,
      OF some_error_model, OF some_error_Academics]
    some_error_required [of "model_schema Behavioral_fields" "''behavioral''" raw,
      OF some_error_model, OF some_error_Behavioral]
    some_error_required [of "model_schema Activities_fields" "''activities''" raw,
      OF some_error_model, OF some_error_Activities]
    some_error_required [of "model_schema DigitalMetrics_fields" "''digital_metrics''" raw,
      OF some_error_model, OF some_error_DigitalMetrics]
  by (auto simp: some_error_def CannizzaroStudent_fields_isl CannizzaroStudent_fields_errs
      demographics_field_def academics_field_def behavioral_field_def activities_field_def
      digital_metrics_field_def)

text \<open>
  C2 (as amended). For every raw mapping, construction either returns the record, when no
  field has an error, or raises one \<open>ValidationError\<close> that carries a non-empty list of
  errors: the errors of the five groups, in the order of declaration, each group evaluated
  whatever the others give; and the errors of a group that is a mapping are the errors of
  all its fields, in the order of declaration, located under the group.
\<close>

theorem init_raises_all_errors:
  "(let es = errs (demographics_field raw) @ errs (academics_field raw) @ errs (behavioral_field raw)
             @ errs (activities_field raw) @ errs (digital_metrics_field raw)
    in (es = [] \<and> (\<exists>r. CannizzaroStudent_init raw = Inr r))
       \<or> (es \<noteq> [] \<and> CannizzaroStudent_init raw = Inl (ValidationError es)))
   \<and> (map_of raw ''demographics'' = Some (RDict md) \<longrightarrow>
        errs (demographics_field raw) = map (at_loc (Key ''demographics''))
          (errs (alias_field md) @ errs (siblings_field md) @ errs (commute_time_min_field md)
           @ errs (class_section_field md) @ errs (hometown_field md)))
   \<and> (map_of raw ''academics'' = Some (RDict ma) \<longrightarrow>
        errs (academics_field raw) = map (at_loc (Key ''academics''))
          (errs (academic_interest_field ma) @ errs (favorite_subject_field ma)))
   \<and> (map_of raw ''behavioral'' = Some (RDict mb) \<longrightarrow>
        errs (behavioral_field raw) = map (at_loc (Key ''behavioral''))
          (errs (social_style_field mb) @ errs (weekend_style_field mb)
           @ errs (best_work_time_field mb) @ errs (humor_style_field mb)))
   \<and> (map_of raw ''activities'' = Some (RDict mact) \<longrightarrow>
        errs (activities_field raw) = map (at_loc (Key ''activities''))
          (errs (sports_field mact) @ errs (music_genres_field mact) @ errs (hobbies_field mact)))
   \<and> (map_of raw ''digital_metrics'' = Some (RDict mdm) \<longrightarrow>
        errs (digital_metrics_field raw) = map (at_loc (Key ''digital_metrics''))
          (errs (avg_screen_time_min_field mdm) @ errs (phone_pickups_daily_field mdm)))"
proof -
  let ?es = "errs (CannizzaroStudent_fields raw)"
  have first: "(?es = [] \<and> (\<exists>r. CannizzaroStudent_init raw = Inr r))
       \<or> (?es \<noteq> [] \<and> CannizzaroStudent_init raw = Inl (ValidationError ?es))"
  proof (cases "CannizzaroStudent_fields raw")
    case (Inl es)
    with some_error_CannizzaroStudent [of raw] show ?thesis
      by (simp add: some_error_def CannizzaroStudent_init_def)
  next
    case (Inr r)
    then show ?thesis by (simp add: CannizzaroStudent_init_def)
  qed
  show ?thesis
    using first
    by (simp add: Let_def CannizzaroStudent_fields_errs model_schema_errs demographics_field_def
        academics_field_def behavioral_field_def activities_field_def digital_metrics_field_def
        Demographics_fields_errs Academics_fields_errs Behavioral_fields_errs Activities_fields_errs
        DigitalMetrics_fields_errs)
qed


text \<open>The sample mapping with \<open>siblings = -1\<close>.\<close>

theorem init_raises_all_errors_witness:
  "map_of (set_field ''demographics'' ''siblings'' (RInt (- 1)) sample_raw) ''demographics''
     = Some (RDict (AList.update ''siblings'' (RInt (- 1)) sample_demographics))
   \<and> map_of (set_field ''demographics'' ''siblings'' (RInt (- 1)) sample_raw) ''activities''
     = Some (RDict sample_activities)
   \<and> errs (demographics_field (set_field ''demographics'' ''siblings'' (RInt (- 1)) sample_raw))
     = map (at_loc (Key ''demographics''))
         (errs (siblings_field (AList.update ''siblings'' (RInt (- 1)) sample_demographics)))
   \<and> CannizzaroStudent_init (set_field ''demographics'' ''siblings'' (RInt (- 1)) sample_raw)
     = Inl (ValidationError [LineError [Key ''demographics'', Key ''siblings''] (greater_than_equal 0)])"
proof -
  let ?R = "set_field ''demographics'' ''siblings'' (RInt (- 1)) sample_raw"
  let ?D = "AList.update ''siblings'' (RInt (- 1)) sample_demographics"
  have h: "map_of ?R ''demographics'' = Some (RDict ?D)"
    "map_of ?R ''academics'' = Some (RDict sample_academics)"
    "map_of ?R ''behavioral'' = Some (RDict sample_behavioral)"
    "map_of ?R ''activities'' = Some (RDict sample_activities)"
    "map_of ?R ''digital_metrics'' = Some (RDict sample_digital_metrics)"
    by code_simp+
  have e: "errs (alias_field ?D) = []" "errs (commute_time_min_field ?D) = []"
    "errs (class_section_field ?D) = []" "errs (hometown_field ?D) = []"
    by code_simp+
  have f: "errs (demographics_field ?R) @ errs (academics_field ?R) @ errs (behavioral_field ?R)
             @ errs (activities_field ?R) @ errs (digital_metrics_field ?R)
           = [LineError [Key ''demographics'', Key ''siblings''] (greater_than_equal 0)]"
    by code_simp
  note T = init_raises_all_errors [of ?R ?D sample_academics sample_behavioral sample_activities
      sample_digital_metrics]
  have A: "CannizzaroStudent_init ?R
     = Inl (ValidationError [LineError [Key ''demographics'', Key ''siblings''] (greater_than_equal 0)])"
    using T [THEN conjunct1] unfolding Let_def f by simp
  have B: "errs (demographics_field ?R) = map (at_loc (Key ''demographics'')) (errs (siblings_field ?D))"
    using T [THEN conjunct2, THEN conjunct1, rule_format, OF h(1)] unfolding e by simp
  show ?thesis using h(1) h(4) A B by simp
qed

text \<open>C2 as stated fails: the failure is raised as an exception, and of the two elements
  of \<open>sports\<close> that are outside the vocabulary only the first is reported.\<close>

theorem init_raises_counterexample:
  "CannizzaroStudent_init
     (AList.delete ''digital_metrics''
        (set_field ''activities'' ''sports'' (RList [RStr ''football'', RStr ''curling'']) sample_raw))
   = Inl (ValidationError
       [LineError [Key ''activities'', Key ''sports''] (value_error (sport_msg ''football'')),
        LineError [Key ''digital_metrics''] missing])"
  by code_simp

subsection \<open>Vocabulary lists\<close>

lemma raise_first_absent_find:
  "raise_first_absent vocab msg xs = map_option (\<lambda>x. ValueError (msg x)) (find (\<lambda>x. x \<notin> set vocab) xs)"
  by (induction xs) simp_all

lemma str_items_strings: "str_items i (map RStr v) = Inr v"
  by (induction v arbitrary: i) (simp_all add: str_schema_def)

lemma list_str_schema_strings:
  "list_str_schema n (RList (map RStr v)) = (if length v < n then Inl [LineError [] (too_short n)] else Inr v)"
  by (simp add: list_str_schema_def str_items_strings)

lemma find_absent:
  assumes "\<exists>s\<in>set v. f s \<notin> set vocab"
  shows "\<exists>bad. find (\<lambda>x. x \<notin> set vocab) (map f v) = Some bad"
proof -
  from assms have "\<exists>x\<in>set (map f v). x \<notin> set vocab" by auto
  then have "find (\<lambda>x. x \<notin> set vocab) (map f v) \<noteq> None" by (simp add: find_None_iff)
  then show ?thesis by blast
qed

text \<open>
  C1 (as amended). For each of \<open>sports\<close>, \<open>music_genres\<close> and \<open>hobbies\<close>: when the input
  is a list of strings with at least one element whose normalized form is outside the
  vocabulary of the field, the field fails with a single error, the \<open>ValueError\<close> of its
  validator, and the message names the first such normalized element, in the order of
  the list, and no other, followed by the vocabulary.
\<close>

theorem first_offending_element_reported:
  "(map_of m ''sports'' = Some (RList (map RStr v))
      \<and> (\<exists>s\<in>set v. str_strip (str_lower s) \<notin> set VALID_SPORTS) \<longrightarrow>
    (\<exists>bad. find (\<lambda>x. x \<notin> set VALID_SPORTS) (map (\<lambda>s. str_strip (str_lower s)) v) = Some bad
       \<and> sports_field m = Inl [LineError [Key ''sports''] (value_error (sport_msg bad))]))
   \<and> (map_of m ''music_genres'' = Some (RList (map RStr v))
      \<and> (\<exists>s\<in>set v. str_strip (str_lower s) \<notin> set VALID_MUSIC_GENRES) \<longrightarrow>
    (\<exists>bad. find (\<lambda>x. x \<notin> set VALID_MUSIC_GENRES) (map (\<lambda>s. str_strip (str_lower s)) v) = Some bad
       \<and> music_genres_field m = Inl [LineError [Key ''music_genres''] (value_error (genre_msg bad))]))
   \<and> (map_of m ''hobbies'' = Some (RList (map RStr v))
      \<and> (\<exists>s\<in>set v. str_strip (str_lower s) \<notin> set VALID_HOBBIES) \<longrightarrow>
    (\<exists>bad. find (\<lambda>x. x \<notin> set VALID_HOBBIES) (map (\<lambda>s. str_strip (str_lower s)) v) = Some bad
       \<and> hobbies_field m = Inl [LineError [Key ''hobbies''] (value_error (hobby_msg bad))]))"
proof -
  have field: "required k (field_validator f (list_str_schema 1)) m
                 = Inl [LineError [Key k] (value_error e)]"
    if "map_of m k = Some (RList (map RStr v))" and "v \<noteq> []"
      and "f v = Inl (ValueError e)"
    for k f e
    using that
    by (simp add: required_def field_validator_def list_str_schema_strings at_loc_def
        less_Suc_eq_0_disj)
  have ne: "v \<noteq> []" if "\<exists>s\<in>set v. P s" for P :: "string \<Rightarrow> bool"
    using that by auto
  show ?thesis
  proof (intro conjI impI; elim conjE)
    assume a: "map_of m ''sports'' = Some (RList (map RStr v))"
      and b: "\<exists>s\<in>set v. str_strip (str_lower s) \<notin> set VALID_SPORTS"
    from find_absent [OF b] obtain bad
      where bad: "find (\<lambda>x. x \<notin> set VALID_SPORTS) (map (\<lambda>s. str_strip (str_lower s)) v) = Some bad"
      by blast
    then have "validate_sports v = Inl (ValueError (sport_msg bad))"
      by (simp add: validate_sports_def raise_first_absent_find)
    from field [of "''sports''" validate_sports, OF a ne [OF b] this] bad
    show "\<exists>bad. find (\<lambda>x. x \<notin> set VALID_SPORTS) (map (\<lambda>s. str_strip (str_lower s)) v) = Some bad
       \<and> sports_field m = Inl [LineError [Key ''sports''] (value_error (sport_msg bad))]"
      by (simp add: sports_field_def)
  next
    assume a: "map_of m ''music_genres'' = Some (RList (map RStr v))"
      and b: "\<exists>s\<in>set v. str_strip (str_lower s) \<notin> set VALID_MUSIC_GENRES"
    from find_absent [OF b] obtain bad
      where bad: "find (\<lambda>x. x \<notin> set VALID_MUSIC_GENRES) (map (\<lambda>s. str_strip (str_lower s)) v) = Some bad"
      by blast
    then have "validate_genres v = Inl (ValueError (genre_msg bad))"
      by (simp add: validate_genres_def raise_first_absent_find)
    from field [of "''music_genres''" validate_genres, OF a ne [OF b] this] bad
    show "\<exists>bad. find (\<lambda>x. x \<notin> set VALID_MUSIC_GENRES) (map (\<lambda>s. str_strip (str_lower s)) v) = Some bad
       \<and> music_genres_field m = Inl [LineError [Key ''music_genres''] (value_error (genre_msg bad))]"
      by (simp add: music_genres_field_def)
  next
    assume a: "map_of m ''hobbies'' = Some (RList (map RStr v))"
      and b: "\<exists>s\<in>set v. str_strip (str_lower s) \<notin> set VALID_HOBBIES"
    from find_absent [OF b] obtain bad
      where bad: "find (\<lambda>x. x \<notin> set VALID_HOBBIES) (map (\<lambda>s. str_strip (str_lower s)) v) = Some bad"
      by blast
    then have "validate_hobbies v = Inl (ValueError (hobby_msg bad))"
      by (simp add: validate_hobbies_def raise_first_absent_find)
    from field [of "''hobbies''" validate_hobbies, OF a ne [OF b] this] bad
    show "\<exists>bad. find (\<lambda>x. x \<notin> set VALID_HOBBIES) (map (\<lambda>s. str_strip (str_lower s)) v) = Some bad
       \<and> hobbies_field m = Inl [LineError [Key ''hobbies''] (value_error (hobby_msg bad))]"
      by (simp add: hobbies_field_def)
  qed
qed

text \<open>C1 as stated fails: of two hobbies outside the vocabulary the message names the
  first, \<open>knitting\<close>, and does not contain the second, \<open>chess\<close>.\<close>

theorem first_offending_element_counterexample:
  "CannizzaroStudent_init
     (set_field ''activities'' ''hobbies'' (RList [RStr ''Knitting'', RStr ''reading'', RStr '' Chess ''])
        sample_raw)
   = Inl (ValidationError
       [LineError [Key ''activities'', Key ''hobbies''] (value_error (hobby_msg ''knitting''))])
   \<and> \<not> sublist ''chess'' (hobby_msg ''knitting'')"
  by code_simp


text \<open>A list of sports with two elements outside the vocabulary.\<close>

theorem first_offending_element_witness:
  "map_of [(''sports'', RList (map RStr [''Football'', ''soccer'', ''curling'']))] ''sports''
     = Some (RList (map RStr [''Football'', ''soccer'', ''curling'']))
   \<and> (\<exists>s\<in>set [''Football'', ''soccer'', ''curling'']. str_strip (str_lower s) \<notin> set VALID_SPORTS)
   \<and> sports_field [(''sports'', RList (map RStr [''Football'', ''soccer'', ''curling'']))]
     = Inl [LineError [Key ''sports''] (value_error (sport_msg ''football''))]"
proof -
  let ?v = "[''Football'', ''soccer'', ''curling'']"
  let ?m = "[(''sports'', RList (map RStr ?v))]"
  have a: "map_of ?m ''sports'' = Some (RList (map RStr ?v))" by simp
  have b: "\<exists>s\<in>set ?v. str_strip (str_lower s) \<notin> set VALID_SPORTS" by code_simp
  have c: "find (\<lambda>x. x \<notin> set VALID_SPORTS) (map (\<lambda>s. str_strip (str_lower s)) ?v) = Some ''football''"
    by code_simp
  from first_offending_element_reported [of ?m ?v, THEN conjunct1, rule_format, OF conjI, OF a b]
  have "sports_field ?m = Inl [LineError [Key ''sports''] (value_error (sport_msg ''football''))]"
    unfolding c by simp
  with a b show ?thesis by blast
qed

subsection \<open>Changing one field of a mapping that validates\<close>

lemma map_of_set_field:
  assumes "map_of raw g = Some (RDict m)"
  shows "map_of (set_field g f v raw) g' = (if g' = g then Some (RDict (AList.update f v m)) else map_of raw g')"
  using assms by (simp add: set_field_def update_conv')

lemma required_update:
  "required k schema (AList.update k' x m) =
     (if k = k' then (case schema x of Inl es \<Rightarrow> Inl (map (at_loc (Key k)) es) | Inr y \<Rightarrow> Inr y)
      else required k schema m)"
  by (simp add: required_def update_conv')

lemma required_set_field_other:
  assumes "map_of raw g = Some (RDict m)" and "k \<noteq> g"
  shows "required k schema (set_field g f v raw) = required k schema raw"
  using assms by (simp add: required_def map_of_set_field)

lemma required_set_field_same:
  assumes "map_of raw g = Some (RDict m)"
  shows "required g (model_schema flds) (set_field g f v raw)
           = (case flds (AList.update f v m) of
                Inl es \<Rightarrow> Inl (map (at_loc (Key g)) es) | Inr y \<Rightarrow> Inr y)"
  using assms by (simp add: required_def map_of_set_field model_schema_def)


lemma init_set_demographics:
  assumes "CannizzaroStudent_init raw = Inr r"
  obtains m where "map_of raw ''demographics'' = Some (RDict m)"
    and "Demographics_fields m = Inr (demographics r)"
    and "\<And>f v. CannizzaroStudent_init (set_field ''demographics'' f v raw) =
           (case Demographics_fields (AList.update f v m) of
              Inl es \<Rightarrow> Inl (ValidationError (map (at_loc (Key ''demographics'')) es))
            | Inr d \<Rightarrow> Inr (r\<lparr>demographics := d\<rparr>))"
proof -
  from assms have all:
    "demographics_field raw = Inr (demographics r)" "academics_field raw = Inr (academics r)"
    "behavioral_field raw = Inr (behavioral r)" "activities_field raw = Inr (activities r)"
    "digital_metrics_field raw = Inr (digital_metrics r)"
    by (simp_all add: CannizzaroStudent_init_Inr CannizzaroStudent_fields_Inr)
  from all(1) obtain m where m: "map_of raw ''demographics'' = Some (RDict m)"
    and d: "Demographics_fields m = Inr (demographics r)"
    by (auto simp: demographics_field_def model_schema_Inr)
  have "CannizzaroStudent_init (set_field ''demographics'' f v raw) =
           (case Demographics_fields (AList.update f v m) of
              Inl es \<Rightarrow> Inl (ValidationError (map (at_loc (Key ''demographics'')) es))
            | Inr d \<Rightarrow> Inr (r\<lparr>demographics := d\<rparr>))" for f v
    using all
    unfolding CannizzaroStudent_init_def CannizzaroStudent_fields_def demographics_field_def
      academics_field_def behavioral_field_def activities_field_def digital_metrics_field_def
    by (cases r) (simp add: required_set_field_other [OF m] required_set_field_same [OF m]
        split: sum.splits)
  with m d show thesis by (rule that)
qed

lemma init_set_academics:
  assumes "CannizzaroStudent_init raw = Inr r"
  obtains m where "map_of raw ''academics'' = Some (RDict m)"
    and "Academics_fields m = Inr (academics r)"
    and "\<And>f v. CannizzaroStudent_init (set_field ''academics'' f v raw) =
           (case Academics_fields (AList.update f v m) of
              Inl es \<Rightarrow> Inl (ValidationError (map (at_loc (Key ''academics'')) es))
            | Inr d \<Rightarrow> Inr (r\<lparr>academics := d\<rparr>))"
proof -
  from assms have all:
    "demographics_field raw = Inr (demographics r)" "academics_field raw = Inr (academics r)"
    "behavioral_field raw = Inr (behavioral r)" "activities_field raw = Inr (activities r)"
    "digital_metrics_field raw = Inr (digital_metrics r)"
    by (simp_all add: CannizzaroStudent_init_Inr CannizzaroStudent_fields_Inr)
  from all(2) obtain m where m: "map_of raw ''academics'' = Some (RDict m)"
    and d: "Academics_fields m = Inr (academics r)"
    by (auto simp: academics_field_def model_schema_Inr)
  have "CannizzaroStudent_init (set_field ''academics'' f v raw) =
           (case Academics_fields (AList.update f v m) of
              Inl es \<Rightarrow> Inl (ValidationError (map (at_loc (Key ''academics'')) es))
            | Inr d \<Rightarrow> Inr (r\<lparr>academics := d\<rparr>))" for f v
    using all
    unfolding CannizzaroStudent_init_def CannizzaroStudent_fields_def demographics_field_def
      academics_field_def behavioral_field_def activities_field_def digital_metrics_field_def
    by (cases r) (simp add: required_set_field_other [OF m] required_set_field_same [OF m]
        split: sum.splits)
  with m d show thesis by (rule that)
qed

lemma init_set_behavioral:
  assumes "CannizzaroStudent_init raw = Inr r"
  obtains m where "map_of raw ''behavioral'' = Some (RDict m)"
    and "Behavioral_fields m = Inr (behavioral r)"
    and "\<And>f v. CannizzaroStudent_init (set_field ''behavioral'' f v raw) =
           (case Behavioral_fields (AList.update f v m) of
              Inl es \<Rightarrow> Inl (ValidationError (map (at_loc (Key ''behavioral'')) es))
            | Inr d \<Rightarrow> Inr (r\<lparr>behavioral := d\<rparr>))"
proof -
  from assms have all:
    "demographics_field raw = Inr (demographics r)" "academics_field raw = Inr (academics r)"
    "behavioral_field raw = Inr (behavioral r)" "activities_field raw = Inr (activities r)"
    "digital_metrics_field raw = Inr (digital_metrics r)"
    by (simp_all add: CannizzaroStudent_init_Inr CannizzaroStudent_fields_Inr)
  from all(3) obtain m where m: "map_of raw ''behavioral'' = Some (RDict m)"
    and d: "Behavioral_fields m = Inr (behavioral r)"
    by (auto simp: behavioral_field_def model_schema_Inr)
  have "CannizzaroStudent_init (set_field ''behavioral'' f v raw) =
           (case Behavioral_fields (AList.update f v m) of
              Inl es \<Rightarrow> Inl (ValidationError (map (at_loc (Key ''behavioral'')) es))
            | Inr d \<Rightarrow> Inr (r\<lparr>behavioral := d\<rparr>))" for f v
    using all
    unfolding CannizzaroStudent_init_def CannizzaroStudent_fields_def demographics_field_def
      academics_field_def behavioral_field_def activities_field_def digital_metrics_field_def
    by (cases r) (simp add: required_set_field_other [OF m] required_set_field_same [OF m]
        split: sum.splits)
  with m d show thesis by (rule that)
qed

lemma init_set_activities:
  assumes "CannizzaroStudent_init raw = Inr r"
  obtains m where "map_of raw ''activities'' = Some (RDict m)"
    and "Activities_fields m = Inr (activities r)"
    and "\<And>f v. CannizzaroStudent_init (set_field ''activities'' f v raw) =
           (case Activities_fields (AList.update f v m) of
              Inl es \<Rightarrow> Inl (ValidationError (map (at_loc (Key ''activities'')) es))
            | Inr d \<Rightarrow> Inr (r\<lparr>activities := d\<rparr>))"
proof -
  from assms have all:
    "demographics_field raw = Inr (demographics r)" "academics_field raw = Inr (academics r)"
    "behavioral_field raw = Inr (behavioral r)" "activities_field raw = Inr (activities r)"
    "digital_metrics_field raw = Inr (digital_metrics r)"
    by (simp_all add: CannizzaroStudent_init_Inr CannizzaroStudent_fields_Inr)
  from all(4) obtain m where m: "map_of raw ''activities'' = Some (RDict m)"
    and d: "Activities_fields m = Inr (activities r)"
    by (auto simp: activities_field_def model_schema_Inr)
  have "CannizzaroStudent_init (set_field ''activities'' f v raw) =
           (case Activities_fields (AList.update f v m) of
              Inl es \<Rightarrow> Inl (ValidationError (map (at_loc (Key ''activities'')) es))
            | Inr d \<Rightarrow> Inr (r\<lparr>activities := d\<rparr>))" for f v
    using all
    unfolding CannizzaroStudent_init_def CannizzaroStudent_fields_def demographics_field_def
      academics_field_def behavioral_field_def activities_field_def digital_metrics_field_def
    by (cases r) (simp add: required_set_field_other [OF m] required_set_field_same [OF m]
        split: sum.splits)
  with m d show thesis by (rule that)
qed

lemma init_set_digital_metrics:
  assumes "CannizzaroStudent_init raw = Inr r"
  obtains m where "map_of raw ''digital_metrics'' = Some (RDict m)"
    and "DigitalMetrics_fields m = Inr (digital_metrics r)"
    and "\<And>f v. CannizzaroStudent_init (set_field ''digital_metrics'' f v raw) =
           (case DigitalMetrics_fields (AList.update f v m) of
              Inl es \<Rightarrow> Inl (ValidationError (map (at_loc (Key ''digital_metrics'')) es))
            | Inr d \<Rightarrow> Inr (r\<lparr>digital_metrics := d\<rparr>))"
proof -
  from assms have all:
    "demographics_field raw = Inr (demographics r)" "academics_field raw = Inr (academics r)"
    "behavioral_field raw = Inr (behavioral r)" "activities_field raw = Inr (activities r)"
    "digital_metrics_field raw = Inr (digital_metrics r)"
    by (simp_all add: CannizzaroStudent_init_Inr CannizzaroStudent_fields_Inr)
  from all(5) obtain m where m: "map_of raw ''digital_metrics'' = Some (RDict m)"
    and d: "DigitalMetrics_fields m = Inr (digital_metrics r)"
    by (auto simp: digital_metrics_field_def model_schema_Inr)
  have "CannizzaroStudent_init (set_field ''digital_metrics'' f v raw) =
           (case DigitalMetrics_fields (AList.update f v m) of
              Inl es \<Rightarrow> Inl (ValidationError (map (at_loc (Key ''digital_metrics'')) es))
            | Inr d \<Rightarrow> Inr (r\<lparr>digital_metrics := d\<rparr>))" for f v
    using all
    unfolding CannizzaroStudent_init_def CannizzaroStudent_fields_def demographics_field_def
      academics_field_def behavioral_field_def activities_field_def digital_metrics_field_def
    by (cases r) (simp add: required_set_field_other [OF m] required_set_field_same [OF m]
        split: sum.splits)
  with m d show thesis by (rule that)
qed


lemma int_schema_ge_le:
  "int_schema (Some lo) None (Some hi) (RInt n) =
     (if \<not> n \<le> hi then Inl [LineError [] (less_than_equal hi)]
      else if \<not> lo \<le> n then Inl [LineError [] (greater_than_equal lo)] else Inr n)"
  by (simp add: int_schema_def)

lemma int_schema_gt_le:
  "int_schema None (Some lo) (Some hi) (RInt n) =
     (if \<not> n \<le> hi then Inl [LineError [] (less_than_equal hi)]
      else if \<not> lo < n then Inl [LineError [] (greater_than lo)] else Inr n)"
  by (simp add: int_schema_def)

lemma Demographics_set_alias:
  assumes "Demographics_fields m = Inr d"
  shows "Demographics_fields (AList.update ''alias'' x m) =
     (case str_schema (Some 3) (Some 30) x of
        Inl es \<Rightarrow> Inl (map (at_loc (Key ''alias'')) es)
      | Inr y \<Rightarrow> Inr (d\<lparr>alias_name := y\<rparr>))"
proof -
  from assms have f: "siblings_field m = Inr (siblings d)" "commute_time_min_field m = Inr (commute_time_min d)" "class_section_field m = Inr (class_section d)" "hometown_field m = Inr (hometown d)"
    by (simp_all add: Demographics_fields_Inr)
  have o: "siblings_field (AList.update ''alias'' x m) = siblings_field m"
    "commute_time_min_field (AList.update ''alias'' x m) = commute_time_min_field m"
    "class_section_field (AList.update ''alias'' x m) = class_section_field m"
    "hometown_field (AList.update ''alias'' x m) = hometown_field m"
    by (simp_all add: siblings_field_def commute_time_min_field_def class_section_field_def hometown_field_def required_update)
  show ?thesis
    unfolding Demographics_fields_def o f
    by (cases d) (simp add: alias_field_def required_update split: sum.splits)
qed

lemma Demographics_set_siblings:
  assumes "Demographics_fields m = Inr d"
  shows "Demographics_fields (AList.update ''siblings'' x m) =
     (case int_schema (Some 0) None (Some 20) x of
        Inl es \<Rightarrow> Inl (map (at_loc (Key ''siblings'')) es)
      | Inr y \<Rightarrow> Inr (d\<lparr>siblings := y\<rparr>))"
proof -
  from assms have f: "alias_field m = Inr (alias_name d)" "commute_time_min_field m = Inr (commute_time_min d)" "class_section_field m = Inr (class_section d)" "hometown_field m = Inr (hometown d)"
    by (simp_all add: Demographics_fields_Inr)
  have o: "alias_field (AList.update ''siblings'' x m) = alias_field m"
    "commute_time_min_field (AList.update ''siblings'' x m) = commute_time_min_field m"
    "class_section_field (AList.update ''siblings'' x m) = class_section_field m"
    "hometown_field (AList.update ''siblings'' x m) = hometown_field m"
    by (simp_all add: alias_field_def commute_time_min_field_def class_section_field_def hometown_field_def required_update)
  show ?thesis
    unfolding Demographics_fields_def o f
    by (cases d) (simp add: siblings_field_def required_update split: sum.splits)
qed

lemma Demographics_set_commute_time_min:
  assumes "Demographics_fields m = Inr d"
  shows "Demographics_fields (AList.update ''commute_time_min'' x m) =
     (case int_schema None (Some 0) (Some 180) x of
        Inl es \<Rightarrow> Inl (map (at_loc (Key ''commute_time_min'')) es)
      | Inr y \<Rightarrow> Inr (d\<lparr>commute_time_min := y\<rparr>))"
proof -
  from assms have f: "alias_field m = Inr (alias_name d)" "siblings_field m = Inr (siblings d)" "class_section_field m = Inr (class_section d)" "hometown_field m = Inr (hometown d)"
    by (simp_all add: Demographics_fields_Inr)
  have o: "alias_field (AList.update ''commute_time_min'' x m) = alias_field m"
    "siblings_field (AList.update ''commute_time_min'' x m) = siblings_field m"
    "class_section_field (AList.update ''commute_time_min'' x m) = class_section_field m"
    "hometown_field (AList.update ''commute_time_min'' x m) = hometown_field m"
    by (simp_all add: alias_field_def siblings_field_def class_section_field_def hometown_field_def required_update)
  show ?thesis
    unfolding Demographics_fields_def o f
    by (cases d) (simp add: commute_time_min_field_def required_update split: sum.splits)
qed

lemma Demographics_set_class_section:
  assumes "Demographics_fields m = Inr d"
  shows "Demographics_fields (AList.update ''class_section'' x m) =
     (case literal_str_schema ClassSectionType x of
        Inl es \<Rightarrow> Inl (map (at_loc (Key ''class_section'')) es)
      | Inr y \<Rightarrow> Inr (d\<lparr>class_section := y\<rparr>))"
proof -
  from assms have f: "alias_field m = Inr (alias_name d)" "siblings_field m = Inr (siblings d)" "commute_time_min_field m = Inr (commute_time_min d)" "hometown_field m = Inr (hometown d)"
    by (simp_all add: Demographics_fields_Inr)
  have o: "alias_field (AList.update ''class_section'' x m) = alias_field m"
    "siblings_field (AList.update ''class_section'' x m) = siblings_field m"
    "commute_time_min_field (AList.update ''class_section'' x m) = commute_time_min_field m"
    "hometown_field (AList.update ''class_section'' x m) = hometown_field m"
    by (simp_all add: alias_field_def siblings_field_def commute_time_min_field_def hometown_field_def required_update)
  show ?thesis
    unfolding Demographics_fields_def o f
    by (cases d) (simp add: class_section_field_def required_update split: sum.splits)
qed

lemma Demographics_set_hometown:
  assumes "Demographics_fields m = Inr d"
  shows "Demographics_fields (AList.update ''hometown'' x m) =
     (case str_schema (Some 2) (Some 50) x of
        Inl es \<Rightarrow> Inl (map (at_loc (Key ''hometown'')) es)
      | Inr y \<Rightarrow> Inr (d\<lparr>hometown := y\<rparr>))"
proof -
  from assms have f: "alias_field m = Inr (alias_name d)" "siblings_field m = Inr (siblings d)" "commute_time_min_field m = Inr (commute_time_min d)" "class_section_field m = Inr (class_section d)"
    by (simp_all add: Demographics_fields_Inr)
  have o: "alias_field (AList.update ''hometown'' x m) = alias_field m"
    "siblings_field (AList.update ''hometown'' x m) = siblings_field m"
    "commute_time_min_field (AList.update ''hometown'' x m) = commute_time_min_field m"
    "class_section_field (AList.update ''hometown'' x m) = class_section_field m"
    by (simp_all add: alias_field_def siblings_field_def commute_time_min_field_def class_section_field_def required_update)
  show ?thesis
    unfolding Demographics_fields_def o f
    by (cases d) (simp add: hometown_field_def required_update split: sum.splits)
qed

lemma Academics_set_academic_interest:
  assumes "Academics_fields m = Inr d"
  shows "Academics_fields (AList.update ''academic_interest'' x m) =
     (case int_schema (Some 1) None (Some 5) x of
        Inl es \<Rightarrow> Inl (map (at_loc (Key ''academic_interest'')) es)
      | Inr y \<Rightarrow> Inr (d\<lparr>academic_interest := y\<rparr>))"
proof -
  from assms have f: "favorite_subject_field m = Inr (favorite_subject d)"
    by (simp_all add: Academics_fields_Inr)
  have o: "favorite_subject_field (AList.update ''academic_interest'' x m) = favorite_subject_field m"
    by (simp_all add: favorite_subject_field_def required_update)
  show ?thesis
    unfolding Academics_fields_def o f
    by (cases d) (simp add: academic_interest_field_def required_update split: sum.splits)
qed

lemma Academics_set_favorite_subject:
  assumes "Academics_fields m = Inr d"
  shows "Academics_fields (AList.update ''favorite_subject'' x m) =
     (case field_validator validate_subject (str_schema None None) x of
        Inl es \<Rightarrow> Inl (map (at_loc (Key ''favorite_subject'')) es)
      | Inr y \<Rightarrow> Inr (d\<lparr>favorite_subject := y\<rparr>))"
proof -
  from assms have f: "academic_interest_field m = Inr (academic_interest d)"
    by (simp_all add: Academics_fields_Inr)
  have o: "academic_interest_field (AList.update ''favorite_subject'' x m) = academic_interest_field m"
    by (simp_all add: academic_interest_field_def required_update)
  show ?thesis
    unfolding Academics_fields_def o f
    by (cases d) (simp add: favorite_subject_field_def required_update split: sum.splits)
qed

lemma Behavioral_set_social_style:
  assumes "Behavioral_fields m = Inr d"
  shows "Behavioral_fields (AList.update ''social_style'' x m) =
     (case int_schema (Some 1) None (Some 5) x of
        Inl es \<Rightarrow> Inl (map (at_loc (Key ''social_style'')) es)
      | Inr y \<Rightarrow> Inr (d\<lparr>social_style := y\<rparr>))"
proof -
  from assms have f: "weekend_style_field m = Inr (weekend_style d)" "best_work_time_field m = Inr (best_work_time d)" "humor_style_field m = Inr (humor_style d)"
    by (simp_all add: Behavioral_fields_Inr)
  have o: "weekend_style_field (AList.update ''social_style'' x m) = weekend_style_field m"
    "best_work_time_field (AList.update ''social_style'' x m) = best_work_time_field m"
    "humor_style_field (AList.update ''social_style'' x m) = humor_style_field m"
    by (simp_all add: weekend_style_field_def best_work_time_field_def humor_style_field_def required_update)
  show ?thesis
    unfolding Behavioral_fields_def o f
    by (cases d) (simp add: social_style_field_def required_update split: sum.splits)
qed

lemma Behavioral_set_weekend_style:
  assumes "Behavioral_fields m = Inr d"
  shows "Behavioral_fields (AList.update ''weekend_style'' x m) =
     (case literal_str_schema WeekendStyleType x of
        Inl es \<Rightarrow> Inl (map (at_loc (Key ''weekend_style'')) es)
      | Inr y \<Rightarrow> Inr (d\<lparr>weekend_style := y\<rparr>))"
proof -
  from assms have f: "social_style_field m = Inr (social_style d)" "best_work_time_field m = Inr (best_work_time d)" "humor_style_field m = Inr (humor_style d)"
    by (simp_all add: Behavioral_fields_Inr)
  have o: "social_style_field (AList.update ''weekend_style'' x m) = social_style_field m"
    "best_work_time_field (AList.update ''weekend_style'' x m) = best_work_time_field m"
    "humor_style_field (AList.update ''weekend_style'' x m) = humor_style_field m"
    by (simp_all add: social_style_field_def best_work_time_field_def humor_style_field_def required_update)
  show ?thesis
    unfolding Behavioral_fields_def o f
    by (cases d) (simp add: weekend_style_field_def required_update split: sum.splits)
qed

lemma Behavioral_set_best_work_time:
  assumes "Behavioral_fields m = Inr d"
  shows "Behavioral_fields (AList.update ''best_work_time'' x m) =
     (case literal_int_schema BestWorkTimeType x of
        Inl es \<Rightarrow> Inl (map (at_loc (Key ''best_work_time'')) es)
      | Inr y \<Rightarrow> Inr (d\<lparr>best_work_time := y\<rparr>))"
proof -
  from assms have f: "social_style_field m = Inr (social_style d)" "weekend_style_field m = Inr (weekend_style d)" "humor_style_field m = Inr (humor_style d)"
    by (simp_all add: Behavioral_fields_Inr)
  have o: "social_style_field (AList.update ''best_work_time'' x m) = social_style_field m"
    "weekend_style_field (AList.update ''best_work_time'' x m) = weekend_style_field m"
    "humor_style_field (AList.update ''best_work_time'' x m) = humor_style_field m"
    by (simp_all add: social_style_field_def weekend_style_field_def humor_style_field_def required_update)
  show ?thesis
    unfolding Behavioral_fields_def o f
    by (cases d) (simp add: best_work_time_field_def required_update split: sum.splits)
qed

lemma Behavioral_set_humor_style:
  assumes "Behavioral_fields m = Inr d"
  shows "Behavioral_fields (AList.update ''humor_style'' x m) =
     (case literal_str_schema HumorStyleType x of
        Inl es \<Rightarrow> Inl (map (at_loc (Key ''humor_style'')) es)
      | Inr y \<Rightarrow> Inr (d\<lparr>humor_style := y\<rparr>))"
proof -
  from assms have f: "social_style_field m = Inr (social_style d)" "weekend_style_field m = Inr (weekend_style d)" "best_work_time_field m = Inr (best_work_time d)"
    by (simp_all add: Behavioral_fields_Inr)
  have o: "social_style_field (AList.update ''humor_style'' x m) = social_style_field m"
    "weekend_style_field (AList.update ''humor_style'' x m) = weekend_style_field m"
    "best_work_time_field (AList.update ''humor_style'' x m) = best_work_time_field m"
    by (simp_all add: social_style_field_def weekend_style_field_def best_work_time_field_def required_update)
  show ?thesis
    unfolding Behavioral_fields_def o f
    by (cases d) (simp add: humor_style_field_def required_update split: sum.splits)
qed

lemma Activities_set_sports:
  assumes "Activities_fields m = Inr d"
  shows "Activities_fields (AList.update ''sports'' x m) =
     (case field_validator validate_sports (list_str_schema 1) x of
        Inl es \<Rightarrow> Inl (map (at_loc (Key ''sports'')) es)
      | Inr y \<Rightarrow> Inr (d\<lparr>sports := y\<rparr>))"
proof -
  from assms have f: "music_genres_field m = Inr (music_genres d)" "hobbies_field m = Inr (hobbies d)"
    by (simp_all add: Activities_fields_Inr)
  have o: "music_genres_field (AList.update ''sports'' x m) = music_genres_field m"
    "hobbies_field (AList.update ''sports'' x m) = hobbies_field m"
    by (simp_all add: music_genres_field_def hobbies_field_def required_update)
  show ?thesis
    unfolding Activities_fields_def o f
    by (cases d) (simp add: sports_field_def required_update split: sum.splits)
qed

lemma Activities_set_music_genres:
  assumes "Activities_fields m = Inr d"
  shows "Activities_fields (AList.update ''music_genres'' x m) =
     (case field_validator validate_genres (list_str_schema 1) x of
        Inl es \<Rightarrow> Inl (map (at_loc (Key ''music_genres'')) es)
      | Inr y \<Rightarrow> Inr (d\<lparr>music_genres := y\<rparr>))"
proof -
  from assms have f: "sports_field m = Inr (sports d)" "hobbies_field m = Inr (hobbies d)"
    by (simp_all add: Activities_fields_Inr)
  have o: "sports_field (AList.update ''music_genres'' x m) = sports_field m"
    "hobbies_field (AList.update ''music_genres'' x m) = hobbies_field m"
    by (simp_all add: sports_field_def hobbies_field_def required_update)
  show ?thesis
    unfolding Activities_fields_def o f
    by (cases d) (simp add: music_genres_field_def required_update split: sum.splits)
qed

lemma Activities_set_hobbies:
  assumes "Activities_fields m = Inr d"
  shows "Activities_fields (AList.update ''hobbies'' x m) =
     (case field_validator validate_hobbies (list_str_schema 1) x of
        Inl es \<Rightarrow> Inl (map (at_loc (Key ''hobbies'')) es)
      | Inr y \<Rightarrow> Inr (d\<lparr>hobbies := y\<rparr>))"
proof -
  from assms have f: "sports_field m = Inr (sports d)" "music_genres_field m = Inr (music_genres d)"
    by (simp_all add: Activities_fields_Inr)
  have o: "sports_field (AList.update ''hobbies'' x m) = sports_field m"
    "music_genres_field (AList.update ''hobbies'' x m) = music_genres_field m"
    by (simp_all add: sports_field_def music_genres_field_def required_update)
  show ?thesis
    unfolding Activities_fields_def o f
    by (cases d) (simp add: hobbies_field_def required_update split: sum.splits)
qed

lemma DigitalMetrics_set_avg_screen_time_min:
  assumes "DigitalMetrics_fields m = Inr d"
  shows "DigitalMetrics_fields (AList.update ''avg_screen_time_min'' x m) =
     (case int_schema (Some 0) None (Some 1440) x of
        Inl es \<Rightarrow> Inl (map (at_loc (Key ''avg_screen_time_min'')) es)
      | Inr y \<Rightarrow> Inr (d\<lparr>avg_screen_time_min := y\<rparr>))"
proof -
  from assms have f: "phone_pickups_daily_field m = Inr (phone_pickups_daily d)"
    by (simp_all add: DigitalMetrics_fields_Inr)
  have o: "phone_pickups_daily_field (AList.update ''avg_screen_time_min'' x m) = phone_pickups_daily_field m"
    by (simp_all add: phone_pickups_daily_field_def required_update)
  show ?thesis
    unfolding DigitalMetrics_fields_def o f
    by (cases d) (simp add: avg_screen_time_min_field_def required_update split: sum.splits)
qed

lemma DigitalMetrics_set_phone_pickups_daily:
  assumes "DigitalMetrics_fields m = Inr d"
  shows "DigitalMetrics_fields (AList.update ''phone_pickups_daily'' x m) =
     (case int_schema (Some 0) None (Some 500) x of
        Inl es \<Rightarrow> Inl (map (at_loc (Key ''phone_pickups_daily'')) es)
      | Inr y \<Rightarrow> Inr (d\<lparr>phone_pickups_daily := y\<rparr>))"
proof -
  from assms have f: "avg_screen_time_min_field m = Inr (avg_screen_time_min d)"
    by (simp_all add: DigitalMetrics_fields_Inr)
  have o: "avg_screen_time_min_field (AList.update ''phone_pickups_daily'' x m) = avg_screen_time_min_field m"
    by (simp_all add: avg_screen_time_min_field_def required_update)
  show ?thesis
    unfolding DigitalMetrics_fields_def o f
    by (cases d) (simp add: phone_pickups_daily_field_def required_update split: sum.splits)
qed

subsection \<open>Integer bounds\<close>

lemma int_bounds_cases:
  assumes "(g, f, lo, hi) \<in> set int_bounds"
  shows "(g = ''demographics'' \<and> f = ''siblings'' \<and> lo = 0 \<and> hi = 20)
    \<or> (g = ''demographics'' \<and> f = ''commute_time_min'' \<and> lo = 1 \<and> hi = 180)
    \<or> (g = ''academics'' \<and> f = ''academic_interest'' \<and> lo = 1 \<and> hi = 5)
    \<or> (g = ''behavioral'' \<and> f = ''social_style'' \<and> lo = 1 \<and> hi = 5)
    \<or> (g = ''digital_metrics'' \<and> f = ''avg_screen_time_min'' \<and> lo = 0 \<and> hi = 1440)
    \<or> (g = ''digital_metrics'' \<and> f = ''phone_pickups_daily'' \<and> lo = 0 \<and> hi = 500)"
  using assms unfolding int_bounds_def by simp

text \<open>
  C5. For every integer field with declared bounds \<open>lo\<close> and \<open>hi\<close> (the table
  \<open>int_bounds\<close>), and every raw mapping that validates: with \<open>lo\<close> or with \<open>hi\<close> in that
  field the mapping still validates; with \<open>lo - 1\<close> or with \<open>hi + 1\<close> construction raises
  exactly one error, located at the field, of a kind that is out of range.
\<close>

theorem integer_bounds:
  assumes "CannizzaroStudent_init raw = Inr r" and "(g, f, lo, hi) \<in> set int_bounds"
  shows "(\<exists>r'. CannizzaroStudent_init (set_field g f (RInt lo) raw) = Inr r')
       \<and> (\<exists>r'. CannizzaroStudent_init (set_field g f (RInt hi) raw) = Inr r')
       \<and> (\<exists>e. CannizzaroStudent_init (set_field g f (RInt (lo - 1)) raw) = Inl (ValidationError [e])
              \<and> loc e = [Key g, Key f] \<and> kind_of e = OutOfRange)
       \<and> (\<exists>e. CannizzaroStudent_init (set_field g f (RInt (hi + 1)) raw) = Inl (ValidationError [e])
              \<and> loc e = [Key g, Key f] \<and> kind_of e = OutOfRange)"
proof -
  from int_bounds_cases [OF assms(2)] consider
      (sib) "g = ''demographics''" "f = ''siblings''" "lo = 0" "hi = 20"
    | (com) "g = ''demographics''" "f = ''commute_time_min''" "lo = 1" "hi = 180"
    | (aca) "g = ''academics''" "f = ''academic_interest''" "lo = 1" "hi = 5"
    | (soc) "g = ''behavioral''" "f = ''social_style''" "lo = 1" "hi = 5"
    | (scr) "g = ''digital_metrics''" "f = ''avg_screen_time_min''" "lo = 0" "hi = 1440"
    | (pho) "g = ''digital_metrics''" "f = ''phone_pickups_daily''" "lo = 0" "hi = 500"
    by (elim disjE conjE) assumption+
  then show ?thesis
  proof cases
    case sib
    from assms(1) show ?thesis
    proof (rule init_set_demographics)
      fix m
      assume "Demographics_fields m = Inr (demographics r)"
        and "\<And>f v. CannizzaroStudent_init (set_field ''demographics'' f v raw) =
           (case Demographics_fields (AList.update f v m) of
              Inl es \<Rightarrow> Inl (ValidationError (map (at_loc (Key ''demographics'')) es))
            | Inr d \<Rightarrow> Inr (r\<lparr>demographics := d\<rparr>))"
      with sib show ?thesis
        by (simp add: Demographics_set_siblings int_schema_ge_le at_loc_def)
    qed
  next
    case com
    from assms(1) show ?thesis
    proof (rule init_set_demographics)
      fix m
      assume "Demographics_fields m = Inr (demographics r)"
        and "\<And>f v. CannizzaroStudent_init (set_field ''demographics'' f v raw) =
           (case Demographics_fields (AList.update f v m) of
              Inl es \<Rightarrow> Inl (ValidationError (map (at_loc (Key ''demographics'')) es))
            | Inr d \<Rightarrow> Inr (r\<lparr>demographics := d\<rparr>))"
      with com show ?thesis
        by (simp add: Demographics_set_commute_time_min int_schema_gt_le at_loc_def)
    qed
  next
    case aca
    from assms(1) show ?thesis
    proof (rule init_set_academics)
      fix m
      assume "Academics_fields m = Inr (academics r)"
        and "\<And>f v. CannizzaroStudent_init (set_field ''academics'' f v raw) =
           (case Academics_fields (AList.update f v m) of
              Inl es \<Rightarrow> Inl (ValidationError (map (at_loc (Key ''academics'')) es))
            | Inr d \<Rightarrow> Inr (r\<lparr>academics := d\<rparr>))"
      with aca show ?thesis
        by (simp add: Academics_set_academic_interest int_schema_ge_le at_loc_def)
    qed
  next
    case soc
    from assms(1) show ?thesis
    proof (rule init_set_behavioral)
      fix m
      assume "Behavioral_fields m = Inr (behavioral r)"
        and "\<And>f v. CannizzaroStudent_init (set_field ''behavioral'' f v raw) =
           (case Behavioral_fields (AList.update f v m) of
              Inl es \<Rightarrow> Inl (ValidationError (map (at_loc (Key ''behavioral'')) es))
            | Inr d \<Rightarrow> Inr (r\<lparr>behavioral := d\<rparr>))"
      with soc show ?thesis
        by (simp add: Behavioral_set_social_style int_schema_ge_le at_loc_def)
    qed
  next
    case scr
    from assms(1) show ?thesis
    proof (rule init_set_digital_metrics)
      fix m
      assume "DigitalMetrics_fields m = Inr (digital_metrics r)"
        and "\<And>f v. CannizzaroStudent_init (set_field ''digital_metrics'' f v raw) =
           (case DigitalMetrics_fields (AList.update f v m) of
              Inl es \<Rightarrow> Inl (ValidationError (map (at_loc (Key ''digital_metrics'')) es))
            | Inr d \<Rightarrow> Inr (r\<lparr>digital_metrics := d\<rparr>))"
      with scr show ?thesis
        by (simp add: DigitalMetrics_set_avg_screen_time_min int_schema_ge_le at_loc_def)
    qed
  next
    case pho
    from assms(1) show ?thesis
    proof (rule init_set_digital_metrics)
      fix m
      assume "DigitalMetrics_fields m = Inr (digital_metrics r)"
        and "\<And>f v. CannizzaroStudent_init (set_field ''digital_metrics'' f v raw) =
           (case DigitalMetrics_fields (AList.update f v m) of
              Inl es \<Rightarrow> Inl (ValidationError (map (at_loc (Key ''digital_metrics'')) es))
            | Inr d \<Rightarrow> Inr (r\<lparr>digital_metrics := d\<rparr>))"
      with pho show ?thesis
        by (simp add: DigitalMetrics_set_phone_pickups_daily int_schema_ge_le at_loc_def)
    qed
  qed
qed

text \<open>The sample mapping and \<open>commute_time_min\<close>, whose lower bound is declared as \<open>gt=0\<close>.\<close>

theorem integer_bounds_witness:
  "CannizzaroStudent_init sample_raw = Inr sample_student
   \<and> (''demographics'', ''commute_time_min'', 1, 180) \<in> set int_bounds
   \<and> (\<exists>r'. CannizzaroStudent_init (set_field ''demographics'' ''commute_time_min'' (RInt 1) sample_raw) = Inr r')
   \<and> (\<exists>r'. CannizzaroStudent_init (set_field ''demographics'' ''commute_time_min'' (RInt 180) sample_raw) = Inr r')
   \<and> (\<exists>e. CannizzaroStudent_init (set_field ''demographics'' ''commute_time_min'' (RInt (1 - 1)) sample_raw)
            = Inl (ValidationError [e])
          \<and> loc e = [Key ''demographics'', Key ''commute_time_min''] \<and> kind_of e = OutOfRange)
   \<and> (\<exists>e. CannizzaroStudent_init (set_field ''demographics'' ''commute_time_min'' (RInt (180 + 1)) sample_raw)
            = Inl (ValidationError [e])
          \<and> loc e = [Key ''demographics'', Key ''commute_time_min''] \<and> kind_of e = OutOfRange)"
proof -
  have a: "CannizzaroStudent_init sample_raw = Inr sample_student" by code_simp
  have b: "(''demographics'', ''commute_time_min'', 1, 180) \<in> set int_bounds" by code_simp
  from integer_bounds [OF a b] a b show ?thesis by blast
qed

subsection \<open>Enumerations\<close>

lemma literal_str_schema_RStr:
  "literal_str_schema ex (RStr s) = (if s \<in> set ex then Inr s else Inl [LineError [] literal_error])"
  by (simp add: literal_str_schema_def)

lemma literal_int_schema_RInt:
  "literal_int_schema ex (RInt n) =
     (if n < - (2 ^ 63) \<or> 2 ^ 63 \<le> n then Inl [LineError [] int_parsing_size]
      else if n \<in> set ex then Inr n else Inl [LineError [] literal_error])"
  by (simp add: literal_int_schema_def)

lemma BestWorkTimeType_range: "n \<in> set BestWorkTimeType \<Longrightarrow> - (2 ^ 63) \<le> n \<and> n < 2 ^ 63"
  by (auto simp: BestWorkTimeType_def)

text \<open>
  C6 (as amended). The enumeration fields \<open>class_section\<close>, \<open>weekend_style\<close>,
  \<open>humor_style\<close> and \<open>best_work_time\<close> are matched exactly, without normalization: in a
  mapping that validates, a string in one of the three string fields is accepted when it
  is itself one of the literals, and is stored as it is; any other string is a
  \<open>literal_error\<close> at the field. The integer field accepts an integer when it is one
  of the literals, and stores it; any other integer is rejected with one error at the
  field, which is a \<open>literal_error\<close> for an integer of the 64-bit range.
\<close>

theorem enums_matched_exactly:
  assumes "CannizzaroStudent_init raw = Inr r"
  shows "CannizzaroStudent_init (set_field ''demographics'' ''class_section'' (RStr s) raw) =
           (if s \<in> set ClassSectionType
            then Inr (r\<lparr>demographics := (demographics r)\<lparr>class_section := s\<rparr>\<rparr>)
            else Inl (ValidationError [LineError [Key ''demographics'', Key ''class_section''] literal_error]))
       \<and> CannizzaroStudent_init (set_field ''behavioral'' ''weekend_style'' (RStr s) raw) =
           (if s \<in> set WeekendStyleType
            then Inr (r\<lparr>behavioral := (behavioral r)\<lparr>weekend_style := s\<rparr>\<rparr>)
            else Inl (ValidationError [LineError [Key ''behavioral'', Key ''weekend_style''] literal_error]))
       \<and> CannizzaroStudent_init (set_field ''behavioral'' ''humor_style'' (RStr s) raw) =
           (if s \<in> set HumorStyleType
            then Inr (r\<lparr>behavioral := (behavioral r)\<lparr>humor_style := s\<rparr>\<rparr>)
            else Inl (ValidationError [LineError [Key ''behavioral'', Key ''humor_style''] literal_error]))
       \<and> (n \<in> set BestWorkTimeType \<longrightarrow>
            CannizzaroStudent_init (set_field ''behavioral'' ''best_work_time'' (RInt n) raw)
              = Inr (r\<lparr>behavioral := (behavioral r)\<lparr>best_work_time := n\<rparr>\<rparr>))
       \<and> (n \<notin> set BestWorkTimeType \<longrightarrow>
            (\<exists>t. CannizzaroStudent_init (set_field ''behavioral'' ''best_work_time'' (RInt n) raw)
                   = Inl (ValidationError [LineError [Key ''behavioral'', Key ''best_work_time''] t])))
       \<and> (n \<notin> set BestWorkTimeType \<and> - (2 ^ 63) \<le> n \<and> n < 2 ^ 63 \<longrightarrow>
            CannizzaroStudent_init (set_field ''behavioral'' ''best_work_time'' (RInt n) raw)
              = Inl (ValidationError [LineError [Key ''behavioral'', Key ''best_work_time''] literal_error]))"
proof -
  have d: "CannizzaroStudent_init (set_field ''demographics'' ''class_section'' (RStr s) raw) =
           (if s \<in> set ClassSectionType
            then Inr (r\<lparr>demographics := (demographics r)\<lparr>class_section := s\<rparr>\<rparr>)
            else Inl (ValidationError [LineError [Key ''demographics'', Key ''class_section''] literal_error]))"
    using assms
  proof (rule init_set_demographics)
    fix m
    assume "Demographics_fields m = Inr (demographics r)"
      and "\<And>f v. CannizzaroStudent_init (set_field ''demographics'' f v raw) =
           (case Demographics_fields (AList.update f v m) of
              Inl es \<Rightarrow> Inl (ValidationError (map (at_loc (Key ''demographics'')) es))
            | Inr d \<Rightarrow> Inr (r\<lparr>demographics := d\<rparr>))"
    then show ?thesis
      by (simp add: Demographics_set_class_section literal_str_schema_RStr at_loc_def)
  qed
  have b: "CannizzaroStudent_init (set_field ''behavioral'' ''weekend_style'' (RStr s) raw) =
           (if s \<in> set WeekendStyleType
            then Inr (r\<lparr>behavioral := (behavioral r)\<lparr>weekend_style := s\<rparr>\<rparr>)
            else Inl (ValidationError [LineError [Key ''behavioral'', Key ''weekend_style''] literal_error]))
       \<and> CannizzaroStudent_init (set_field ''behavioral'' ''humor_style'' (RStr s) raw) =
           (if s \<in> set HumorStyleType
            then Inr (r\<lparr>behavioral := (behavioral r)\<lparr>humor_style := s\<rparr>\<rparr>)
            else Inl (ValidationError [LineError [Key ''behavioral'', Key ''humor_style''] literal_error]))
       \<and> (n \<in> set BestWorkTimeType \<longrightarrow>
            CannizzaroStudent_init (set_field ''behavioral'' ''best_work_time'' (RInt n) raw)
              = Inr (r\<lparr>behavioral := (behavioral r)\<lparr>best_work_time := n\<rparr>\<rparr>))
       \<and> (n \<notin> set BestWorkTimeType \<longrightarrow>
            (\<exists>t. CannizzaroStudent_init (set_field ''behavioral'' ''best_work_time'' (RInt n) raw)
                   = Inl (ValidationError [LineError [Key ''behavioral'', Key ''best_work_time''] t])))
       \<and> (n \<notin> set BestWorkTimeType \<and> - (2 ^ 63) \<le> n \<and> n < 2 ^ 63 \<longrightarrow>
            CannizzaroStudent_init (set_field ''behavioral'' ''best_work_time'' (RInt n) raw)
              = Inl (ValidationError [LineError [Key ''behavioral'', Key ''best_work_time''] literal_error]))"
    using assms
  proof (rule init_set_behavioral)
    fix m
    assume "Behavioral_fields m = Inr (behavioral r)"
      and "\<And>f v. CannizzaroStudent_init (set_field ''behavioral'' f v raw) =
           (case Behavioral_fields (AList.update f v m) of
              Inl es \<Rightarrow> Inl (ValidationError (map (at_loc (Key ''behavioral'')) es))
            | Inr d \<Rightarrow> Inr (r\<lparr>behavioral := d\<rparr>))"
    then show ?thesis
      using BestWorkTimeType_range [of n]
      by (auto simp: Behavioral_set_weekend_style Behavioral_set_humor_style
          Behavioral_set_best_work_time literal_str_schema_RStr literal_int_schema_RInt at_loc_def)
  qed
  from d b show ?thesis by (rule conjI)
qed

text \<open>The sample mapping with section \<open>e\<close>, and with work time 5.\<close>

theorem enums_matched_exactly_witness:
  "CannizzaroStudent_init sample_raw = Inr sample_student
   \<and> CannizzaroStudent_init (set_field ''demographics'' ''class_section'' (RStr ''e'') sample_raw)
       = Inr (sample_student\<lparr>demographics := (demographics sample_student)\<lparr>class_section := ''e''\<rparr>\<rparr>)
   \<and> CannizzaroStudent_init (set_field ''behavioral'' ''best_work_time'' (RInt 5) sample_raw)
       = Inl (ValidationError [LineError [Key ''behavioral'', Key ''best_work_time''] literal_error])"
proof -
  have a: "CannizzaroStudent_init sample_raw = Inr sample_student" by code_simp
  have e: "''e'' \<in> set ClassSectionType"
    "(5::int) \<notin> set BestWorkTimeType \<and> - (2 ^ 63) \<le> (5::int) \<and> (5::int) < 2 ^ 63"
    by code_simp+
  from enums_matched_exactly [OF a, of "''e''" 5] a e show ?thesis by simp
qed

text \<open>An integer outside the 64-bit range is rejected before the literals are compared.\<close>

lemma best_work_time_out_of_range:
  "CannizzaroStudent_init (set_field ''behavioral'' ''best_work_time'' (RInt (2 ^ 63)) sample_raw)
     = Inl (ValidationError [LineError [Key ''behavioral'', Key ''best_work_time''] int_parsing_size])"
  by code_simp

text \<open>C6 as stated fails: \<open>"A"\<close> for \<open>class_section\<close> and \<open>" chill "\<close> for
  \<open>weekend_style\<close> are rejected.\<close>

theorem enums_normalized_counterexample:
  "CannizzaroStudent_init (set_field ''demographics'' ''class_section'' (RStr ''A'') sample_raw)
     = Inl (ValidationError [LineError [Key ''demographics'', Key ''class_section''] literal_error])
   \<and> CannizzaroStudent_init (set_field ''behavioral'' ''weekend_style'' (RStr '' chill '') sample_raw)
     = Inl (ValidationError [LineError [Key ''behavioral'', Key ''weekend_style''] literal_error])"
  by code_simp

subsection \<open>Alias and hometown\<close>

lemma str_schema_RStr:
  "str_schema (Some lo) (Some hi) (RStr s) =
     (if length s < lo then Inl [LineError [] (string_too_short lo)]
      else if hi < length s then Inl [LineError [] (string_too_long hi)] else Inr s)"
  by (simp add: str_schema_def)

lemma str_field_Inr:
  "required k (str_schema (Some lo) (Some hi)) m = Inr s \<longleftrightarrow>
     map_of m k = Some (RStr s) \<and> lo \<le> length s \<and> length s \<le> hi"
  by (auto simp: required_def str_schema_def split: option.splits raw.splits if_splits)

text \<open>
  C10. The lengths of \<open>alias\<close> (3 to 30) and \<open>hometown\<close> (2 to 50) are measured on the
  string as given, white space included, and the string is stored as given: the record
  constructed from a mapping holds the very strings of the mapping, and in a mapping that
  validates any string \<open>s\<close> put in one of the two fields is accepted exactly when its own
  length is within the bounds, and is then the value of the field.
\<close>

theorem alias_hometown_as_given:
  assumes "CannizzaroStudent_init raw = Inr r"
  shows "(\<exists>m. map_of raw ''demographics'' = Some (RDict m)
            \<and> map_of m ''alias'' = Some (RStr (alias_name (demographics r)))
            \<and> map_of m ''hometown'' = Some (RStr (hometown (demographics r))))
       \<and> CannizzaroStudent_init (set_field ''demographics'' ''alias'' (RStr s) raw) =
           (if length s < 3
            then Inl (ValidationError [LineError [Key ''demographics'', Key ''alias''] (string_too_short 3)])
            else if 30 < length s
            then Inl (ValidationError [LineError [Key ''demographics'', Key ''alias''] (string_too_long 30)])
            else Inr (r\<lparr>demographics := (demographics r)\<lparr>alias_name := s\<rparr>\<rparr>))
       \<and> CannizzaroStudent_init (set_field ''demographics'' ''hometown'' (RStr s) raw) =
           (if length s < 2
            then Inl (ValidationError [LineError [Key ''demographics'', Key ''hometown''] (string_too_short 2)])
            else if 50 < length s
            then Inl (ValidationError [LineError [Key ''demographics'', Key ''hometown''] (string_too_long 50)])
            else Inr (r\<lparr>demographics := (demographics r)\<lparr>hometown := s\<rparr>\<rparr>))"
  using assms
proof (rule init_set_demographics)
  fix m
  assume m: "map_of raw ''demographics'' = Some (RDict m)"
    and d: "Demographics_fields m = Inr (demographics r)"
    and u: "\<And>f v. CannizzaroStudent_init (set_field ''demographics'' f v raw) =
           (case Demographics_fields (AList.update f v m) of
              Inl es \<Rightarrow> Inl (ValidationError (map (at_loc (Key ''demographics'')) es))
            | Inr d \<Rightarrow> Inr (r\<lparr>demographics := d\<rparr>))"
  from d have "map_of m ''alias'' = Some (RStr (alias_name (demographics r)))"
    and "map_of m ''hometown'' = Some (RStr (hometown (demographics r)))"
    by (simp_all add: Demographics_fields_Inr alias_field_def hometown_field_def str_field_Inr)
  with m have first: "\<exists>m. map_of raw ''demographics'' = Some (RDict m)
            \<and> map_of m ''alias'' = Some (RStr (alias_name (demographics r)))
            \<and> map_of m ''hometown'' = Some (RStr (hometown (demographics r)))"
    by blast
  from d u have rest: "CannizzaroStudent_init (set_field ''demographics'' ''alias'' (RStr s) raw) =
           (if length s < 3
            then Inl (ValidationError [LineError [Key ''demographics'', Key ''alias''] (string_too_short 3)])
            else if 30 < length s
            then Inl (ValidationError [LineError [Key ''demographics'', Key ''alias''] (string_too_long 30)])
            else Inr (r\<lparr>demographics := (demographics r)\<lparr>alias_name := s\<rparr>\<rparr>))
       \<and> CannizzaroStudent_init (set_field ''demographics'' ''hometown'' (RStr s) raw) =
           (if length s < 2
            then Inl (ValidationError [LineError [Key ''demographics'', Key ''hometown''] (string_too_short 2)])
            else if 50 < length s
            then Inl (ValidationError [LineError [Key ''demographics'', Key ''hometown''] (string_too_long 50)])
            else Inr (r\<lparr>demographics := (demographics r)\<lparr>hometown := s\<rparr>\<rparr>))"
    by (simp add: Demographics_set_alias Demographics_set_hometown str_schema_RStr at_loc_def)
  from first rest show ?thesis by (rule conjI)
qed

text \<open>The string \<open>" a "\<close>, of length 3 with its two spaces, is accepted and kept in both
  fields.\<close>

theorem alias_hometown_as_given_witness:
  "CannizzaroStudent_init sample_raw = Inr sample_student
   \<and> CannizzaroStudent_init (set_field ''demographics'' ''alias'' (RStr '' a '') sample_raw)
       = Inr (sample_student\<lparr>demographics := (demographics sample_student)\<lparr>alias_name := '' a ''\<rparr>\<rparr>)
   \<and> CannizzaroStudent_init (set_field ''demographics'' ''hometown'' (RStr '' a '') sample_raw)
       = Inr (sample_student\<lparr>demographics := (demographics sample_student)\<lparr>hometown := '' a ''\<rparr>\<rparr>)"
proof -
  have a: "CannizzaroStudent_init sample_raw = Inr sample_student" by code_simp
  from alias_hometown_as_given [OF a, of "'' a ''"] a show ?thesis by simp
qed

subsection \<open>What a field that is accepted holds\<close>

lemma int_field_ge_le_Inr:
  "required k (int_schema (Some lo) None (Some hi)) m = Inr n \<Longrightarrow> lo \<le> n \<and> n \<le> hi"
  by (auto simp: required_def int_schema_def split: option.splits raw.splits if_splits)

lemma int_field_gt_le_Inr:
  "required k (int_schema None (Some lo) (Some hi)) m = Inr n \<Longrightarrow> lo < n \<and> n \<le> hi"
  by (auto simp: required_def int_schema_def split: option.splits raw.splits if_splits)

lemma literal_str_field_Inr:
  "required k (literal_str_schema ex) m = Inr s \<Longrightarrow> s \<in> set ex"
  by (auto simp: required_def literal_str_schema_def split: option.splits raw.splits if_splits)

lemma literal_int_field_Inr:
  "required k (literal_int_schema ex) m = Inr n \<Longrightarrow> n \<in> set ex"
  by (auto simp: required_def literal_int_schema_def split: option.splits raw.splits if_splits)

lemma list_str_schema_Inr: "list_str_schema n x = Inr ss \<Longrightarrow> n \<le> length ss"
  by (auto simp: list_str_schema_def split: raw.splits sum.splits if_splits)

lemma raise_first_absent_None:
  "raise_first_absent vocab msg xs = None \<longleftrightarrow> set xs \<subseteq> set vocab"
  by (induction xs) auto

lemma map_fixed: "map f xs = xs \<Longrightarrow> x \<in> set xs \<Longrightarrow> f x = x"
  by (induction xs) auto

lemma vocabularies_normalized:
  "s \<in> set VALID_SPORTS \<or> s \<in> set VALID_MUSIC_GENRES \<or> s \<in> set VALID_HOBBIES \<or> s \<in> set VALID_SUBJECTS
   \<Longrightarrow> str_strip (str_lower s) = s"
proof -
  have l: "map str_lower VALID_SPORTS = VALID_SPORTS" "map str_lower VALID_MUSIC_GENRES = VALID_MUSIC_GENRES"
    "map str_lower VALID_HOBBIES = VALID_HOBBIES" "map str_lower VALID_SUBJECTS = VALID_SUBJECTS"
    by code_simp+
  have t: "map str_strip VALID_SPORTS = VALID_SPORTS" "map str_strip VALID_MUSIC_GENRES = VALID_MUSIC_GENRES"
    "map str_strip VALID_HOBBIES = VALID_HOBBIES" "map str_strip VALID_SUBJECTS = VALID_SUBJECTS"
    by code_simp+
  assume "s \<in> set VALID_SPORTS \<or> s \<in> set VALID_MUSIC_GENRES \<or> s \<in> set VALID_HOBBIES \<or> s \<in> set VALID_SUBJECTS"
  then show ?thesis
    using l [THEN map_fixed, of s] t [THEN map_fixed, of s] by (elim disjE) simp_all
qed

lemma normalized_list:
  assumes "set v \<subseteq> set VALID_SPORTS \<or> set v \<subseteq> set VALID_MUSIC_GENRES \<or> set v \<subseteq> set VALID_HOBBIES"
  shows "map (\<lambda>s. str_strip (str_lower s)) v = v"
proof -
  have "str_strip (str_lower s) = s" if "s \<in> set v" for s
    using assms that by (intro vocabularies_normalized) blast
  then show ?thesis by (simp add: map_idI)
qed

lemma vocab_field_Inr:
  assumes "required k (field_validator f (list_str_schema 1)) m = Inr v"
    and "\<And>xs. f xs = (case raise_first_absent vocab msg (map nrm xs) of
                       Some e \<Rightarrow> Inl e | None \<Rightarrow> Inr (map nrm xs))"
  shows "v \<noteq> [] \<and> set v \<subseteq> set vocab"
proof -
  from assms(1) obtain x xs where "list_str_schema 1 x = Inr xs" and fv: "f xs = Inr v"
    by (auto simp: required_def field_validator_def split: option.splits sum.splits value_error.splits)
  then have "xs \<noteq> []" by (auto dest: list_str_schema_Inr)
  moreover from fv have "v = map nrm xs" and "raise_first_absent vocab msg (map nrm xs) = None"
    by (auto simp: assms(2) split: option.splits)
  ultimately show ?thesis by (simp add: raise_first_absent_None)
qed

lemma favorite_subject_field_Inr:
  "favorite_subject_field m = Inr s \<Longrightarrow> s \<in> set VALID_SUBJECTS"
  by (auto simp: favorite_subject_field_def required_def field_validator_def validate_subject_def
      Let_def split: option.splits sum.splits if_splits)

subsection \<open>Validation of a normalized mapping\<close>

lemma map_of_map_values:
  "map_of (map (\<lambda>(k, v). (k, F k v)) m) k = map_option (F k) (map_of m k)"
  by (induction m) auto

lemma required_map_values:
  assumes "required k schema m = Inr y"
    and "\<And>x. schema x = Inr y \<Longrightarrow> schema (F k x) = Inr y"
  shows "required k schema (map (\<lambda>(k, v). (k, F k v)) m) = Inr y"
proof -
  from assms(1) obtain x where x: "map_of m k = Some x" and s: "schema x = Inr y"
    by (auto simp: required_def split: option.splits sum.splits)
  from assms(2) [OF s] x show ?thesis
    by (simp add: required_def map_of_map_values)
qed

lemma int_schema_norm: "int_schema a b c x = Inr n \<Longrightarrow> int_schema a b c (norm_raw x) = Inr n"
  by (cases x) (simp_all add: int_schema_def norm_raw_def)

lemma literal_int_schema_norm:
  "literal_int_schema ex x = Inr n \<Longrightarrow> literal_int_schema ex (norm_raw x) = Inr n"
  by (cases x) (simp_all add: literal_int_schema_def norm_raw_def)

lemma literal_str_schema_norm:
  assumes "literal_str_schema ex x = Inr s" and "map (\<lambda>s. str_strip (str_lower s)) ex = ex"
  shows "literal_str_schema ex (norm_raw x) = Inr s"
proof -
  from assms(1) have x: "x = RStr s" and s: "s \<in> set ex"
    by (cases x; simp add: literal_str_schema_def split: if_splits)+
  from map_fixed [OF assms(2) s] s show ?thesis
    by (simp add: x norm_raw_def literal_str_schema_def)
qed

lemma subject_schema_norm:
  assumes "field_validator validate_subject (str_schema None None) x = Inr s"
  shows "field_validator validate_subject (str_schema None None) (norm_raw x) = Inr s"
proof -
  from assms obtain t where x: "x = RStr t" and s: "s = str_strip (str_lower t)"
    and v: "s \<in> set VALID_SUBJECTS"
    by (cases x)
      (auto simp: field_validator_def str_schema_def validate_subject_def Let_def split: if_splits)
  from v have "str_strip (str_lower s) = s" by (simp add: vocabularies_normalized)
  with v show ?thesis
    by (simp add: x s [symmetric] norm_raw_def field_validator_def str_schema_def
        validate_subject_def Let_def)
qed

lemma str_items_Inr: "str_items i xs = Inr ss \<Longrightarrow> xs = map RStr ss"
proof (induction xs arbitrary: i ss)
  case Nil
  then show ?case by simp
next
  case (Cons x xs)
  from Cons.prems obtain s ss' where "str_schema None None x = Inr s"
    and r: "str_items (Suc i) xs = Inr ss'" and "ss = s # ss'"
    by (auto split: sum.splits)
  moreover from this have "x = RStr s" by (cases x) (simp_all add: str_schema_def)
  ultimately show ?case using Cons.IH [OF r] by simp
qed

lemma list_str_schema_Inr_eq:
  "list_str_schema n x = Inr ss \<longleftrightarrow> x = RList (map RStr ss) \<and> n \<le> length ss"
proof
  assume a: "list_str_schema n x = Inr ss"
  then obtain xs where x: "x = RList xs" and i: "str_items 0 xs = Inr ss"
    by (cases x) (auto simp: list_str_schema_def split: sum.splits if_splits)
  from str_items_Inr [OF i] x list_str_schema_Inr [OF a]
  show "x = RList (map RStr ss) \<and> n \<le> length ss" by simp
next
  assume "x = RList (map RStr ss) \<and> n \<le> length ss"
  then show "list_str_schema n x = Inr ss" by (simp add: list_str_schema_strings)
qed

lemma norm_raw_strings:
  "norm_raw (RList (map RStr ss)) = RList (map RStr (map (\<lambda>s. str_strip (str_lower s)) ss))"
  by (simp add: norm_raw_def)

lemma vocab_schema_norm:
  assumes "field_validator f (list_str_schema 1) x = Inr v"
    and f: "\<And>xs. f xs = (case raise_first_absent vocab msg (map (\<lambda>s. str_strip (str_lower s)) xs) of
                       Some e \<Rightarrow> Inl e | None \<Rightarrow> Inr (map (\<lambda>s. str_strip (str_lower s)) xs))"
    and n: "map (\<lambda>s. str_strip (str_lower s)) vocab = vocab"
  shows "field_validator f (list_str_schema 1) (norm_raw x) = Inr v"
proof -
  let ?nrm = "\<lambda>s. str_strip (str_lower s)"
  from assms(1) obtain ss where l: "list_str_schema 1 x = Inr ss" and fv: "f ss = Inr v"
    by (auto simp: field_validator_def split: sum.splits value_error.splits)
  from l have x: "x = RList (map RStr ss)" and len: "1 \<le> length ss"
    by (simp_all add: list_str_schema_Inr_eq)
  from fv have v: "v = map ?nrm ss" and none: "raise_first_absent vocab msg (map ?nrm ss) = None"
    by (auto simp: f split: option.splits)
  from none have sub: "set v \<subseteq> set vocab" by (simp add: v raise_first_absent_None)
  have "?nrm s = s" if "s \<in> set v" for s
    using map_fixed [OF n] sub that by blast
  then have vv: "map ?nrm v = v" by (simp add: map_idI)
  have "list_str_schema 1 (norm_raw x) = Inr v"
    unfolding x norm_raw_strings v list_str_schema_strings using len by (cases ss) simp_all
  moreover have "f v = Inr v"
  proof -
    from none have "raise_first_absent vocab msg v = None" unfolding v .
    then show ?thesis unfolding f vv by simp
  qed
  ultimately show ?thesis by (simp add: field_validator_def)
qed


lemma literals_normalized:
  "map (\<lambda>s. str_strip (str_lower s)) ClassSectionType = ClassSectionType"
  "map (\<lambda>s. str_strip (str_lower s)) WeekendStyleType = WeekendStyleType"
  "map (\<lambda>s. str_strip (str_lower s)) HumorStyleType = HumorStyleType"
  "map (\<lambda>s. str_strip (str_lower s)) VALID_SPORTS = VALID_SPORTS"
  "map (\<lambda>s. str_strip (str_lower s)) VALID_MUSIC_GENRES = VALID_MUSIC_GENRES"
  "map (\<lambda>s. str_strip (str_lower s)) VALID_HOBBIES = VALID_HOBBIES"
  by code_simp+

lemma required_norm_keys:
  assumes "required k schema m = Inr y"
    and "k \<in> set ks \<Longrightarrow> (\<forall>x. schema x = Inr y \<longrightarrow> schema (norm_raw x) = Inr y)"
  shows "required k schema (map (\<lambda>(k, v). (k, if k \<in> set ks then norm_raw v else v)) m) = Inr y"
  by (rule required_map_values [OF assms(1), where F = "\<lambda>k v. if k \<in> set ks then norm_raw v else v"])
    (use assms(2) in auto)

lemma vocab_schemas_norm:
  "field_validator validate_sports (list_str_schema 1) x = Inr v \<Longrightarrow>
   field_validator validate_sports (list_str_schema 1) (norm_raw x) = Inr v"
  "field_validator validate_genres (list_str_schema 1) x = Inr v \<Longrightarrow>
   field_validator validate_genres (list_str_schema 1) (norm_raw x) = Inr v"
  "field_validator validate_hobbies (list_str_schema 1) x = Inr v \<Longrightarrow>
   field_validator validate_hobbies (list_str_schema 1) (norm_raw x) = Inr v"
proof -
  show "field_validator validate_sports (list_str_schema 1) x = Inr v \<Longrightarrow>
   field_validator validate_sports (list_str_schema 1) (norm_raw x) = Inr v"
    by (rule vocab_schema_norm [where vocab = VALID_SPORTS and msg = sport_msg])
      (simp_all add: validate_sports_def Let_def literals_normalized)
  show "field_validator validate_genres (list_str_schema 1) x = Inr v \<Longrightarrow>
   field_validator validate_genres (list_str_schema 1) (norm_raw x) = Inr v"
    by (rule vocab_schema_norm [where vocab = VALID_MUSIC_GENRES and msg = genre_msg])
      (simp_all add: validate_genres_def Let_def literals_normalized)
  show "field_validator validate_hobbies (list_str_schema 1) x = Inr v \<Longrightarrow>
   field_validator validate_hobbies (list_str_schema 1) (norm_raw x) = Inr v"
    by (rule vocab_schema_norm [where vocab = VALID_HOBBIES and msg = hobby_msg])
      (simp_all add: validate_hobbies_def Let_def literals_normalized)
qed

lemma Demographics_fields_norm:
  assumes "Demographics_fields m = Inr d"
  shows "Demographics_fields (map (\<lambda>(k, v). (k, if k \<in> set [''class_section''] then norm_raw v else v)) m) = Inr d"
proof -
  let ?m = "map (\<lambda>(k, v). (k, if k \<in> set [''class_section''] then norm_raw v else v)) m"
  from assms have f: "alias_field m = Inr (alias_name d)" "siblings_field m = Inr (siblings d)" "commute_time_min_field m = Inr (commute_time_min d)" "class_section_field m = Inr (class_section d)" "hometown_field m = Inr (hometown d)"
    by (simp_all add: Demographics_fields_Inr)
  have f1: "alias_field ?m = Inr (alias_name d)"
    unfolding alias_field_def
    by (rule required_norm_keys [OF f(1) [unfolded alias_field_def]])
      (simp del: One_nat_def add: literal_str_schema_norm literals_normalized subject_schema_norm
        vocab_schemas_norm)
  have f2: "siblings_field ?m = Inr (siblings d)"
    unfolding siblings_field_def
    by (rule required_norm_keys [OF f(2) [unfolded siblings_field_def]])
      (simp del: One_nat_def add: literal_str_schema_norm literals_normalized subject_schema_norm
        vocab_schemas_norm)
  have f3: "commute_time_min_field ?m = Inr (commute_time_min d)"
    unfolding commute_time_min_field_def
    by (rule required_norm_keys [OF f(3) [unfolded commute_time_min_field_def]])
      (simp del: One_nat_def add: literal_str_schema_norm literals_normalized subject_schema_norm
        vocab_schemas_norm)
  have f4: "class_section_field ?m = Inr (class_section d)"
    unfolding class_section_field_def
    by (rule required_norm_keys [OF f(4) [unfolded class_section_field_def]])
      (simp del: One_nat_def add: literal_str_schema_norm literals_normalized subject_schema_norm
        vocab_schemas_norm)
  have f5: "hometown_field ?m = Inr (hometown d)"
    unfolding hometown_field_def
    by (rule required_norm_keys [OF f(5) [unfolded hometown_field_def]])
      (simp del: One_nat_def add: literal_str_schema_norm literals_normalized subject_schema_norm
        vocab_schemas_norm)
  show ?thesis
    unfolding Demographics_fields_Inr using f1 f2 f3 f4 f5 by simp
qed

lemma Academics_fields_norm:
  assumes "Academics_fields m = Inr d"
  shows "Academics_fields (map (\<lambda>(k, v). (k, if k \<in> set [''favorite_subject''] then norm_raw v else v)) m) = Inr d"
proof -
  let ?m = "map (\<lambda>(k, v). (k, if k \<in> set [''favorite_subject''] then norm_raw v else v)) m"
  from assms have f: "academic_interest_field m = Inr (academic_interest d)" "favorite_subject_field m = Inr (favorite_subject d)"
    by (simp_all add: Academics_fields_Inr)
  have f1: "academic_interest_field ?m = Inr (academic_interest d)"
    unfolding academic_interest_field_def
    by (rule required_norm_keys [OF f(1) [unfolded academic_interest_field_def]])
      (simp del: One_nat_def add: literal_str_schema_norm literals_normalized subject_schema_norm
        vocab_schemas_norm)
  have f2: "favorite_subject_field ?m = Inr (favorite_subject d)"
    unfolding favorite_subject_field_def
    by (rule required_norm_keys [OF f(2) [unfolded favorite_subject_field_def]])
      (simp del: One_nat_def add: literal_str_schema_norm literals_normalized subject_schema_norm
        vocab_schemas_norm)
  show ?thesis
    unfolding Academics_fields_Inr using f1 f2 by simp
qed

lemma Behavioral_fields_norm:
  assumes "Behavioral_fields m = Inr d"
  shows "Behavioral_fields (map (\<lambda>(k, v). (k, if k \<in> set [''weekend_style'', ''humor_style''] then norm_raw v else v)) m) = Inr d"
proof -
  let ?m = "map (\<lambda>(k, v). (k, if k \<in> set [''weekend_style'', ''humor_style''] then norm_raw v else v)) m"
  from assms have f: "social_style_field m = Inr (social_style d)" "weekend_style_field m = Inr (weekend_style d)" "best_work_time_field m = Inr (best_work_time d)" "humor_style_field m = Inr (humor_style d)"
    by (simp_all add: Behavioral_fields_Inr)
  have f1: "social_style_field ?m = Inr (social_style d)"
    unfolding social_style_field_def
    by (rule required_norm_keys [OF f(1) [unfolded social_style_field_def]])
      (simp del: One_nat_def add: literal_str_schema_norm literals_normalized subject_schema_norm
        vocab_schemas_norm)
  have f2: "weekend_style_field ?m = Inr (weekend_style d)"
    unfolding weekend_style_field_def
    by (rule required_norm_keys [OF f(2) [unfolded weekend_style_field_def]])
      (simp del: One_nat_def add: literal_str_schema_norm literals_normalized subject_schema_norm
        vocab_schemas_norm)
  have f3: "best_work_time_field ?m = Inr (best_work_time d)"
    unfolding best_work_time_field_def
    by (rule required_norm_keys [OF f(3) [unfolded best_work_time_field_def]])
      (simp del: One_nat_def add: literal_str_schema_norm literals_normalized subject_schema_norm
        vocab_schemas_norm)
  have f4: "humor_style_field ?m = Inr (humor_style d)"
    unfolding humor_style_field_def
    by (rule required_norm_keys [OF f(4) [unfolded humor_style_field_def]])
      (simp del: One_nat_def add: literal_str_schema_norm literals_normalized subject_schema_norm
        vocab_schemas_norm)
  show ?thesis
    unfolding Behavioral_fields_Inr using f1 f2 f3 f4 by simp
qed

lemma Activities_fields_norm:
  assumes "Activities_fields m = Inr d"
  shows "Activities_fields (map (\<lambda>(k, v). (k, if k \<in> set [''sports'', ''music_genres'', ''hobbies''] then norm_raw v else v)) m) = Inr d"
proof -
  let ?m = "map (\<lambda>(k, v). (k, if k \<in> set [''sports'', ''music_genres'', ''hobbies''] then norm_raw v else v)) m"
  from assms have f: "sports_field m = Inr (sports d)" "music_genres_field m = Inr (music_genres d)" "hobbies_field m = Inr (hobbies d)"
    by (simp_all add: Activities_fields_Inr)
  have f1: "sports_field ?m = Inr (sports d)"
    unfolding sports_field_def
    by (rule required_norm_keys [OF f(1) [unfolded sports_field_def]])
      (simp del: One_nat_def add: literal_str_schema_norm literals_normalized subject_schema_norm
        vocab_schemas_norm)
  have f2: "music_genres_field ?m = Inr (music_genres d)"
    unfolding music_genres_field_def
    by (rule required_norm_keys [OF f(2) [unfolded music_genres_field_def]])
      (simp del: One_nat_def add: literal_str_schema_norm literals_normalized subject_schema_norm
        vocab_schemas_norm)
  have f3: "hobbies_field ?m = Inr (hobbies d)"
    unfolding hobbies_field_def
    by (rule required_norm_keys [OF f(3) [unfolded hobbies_field_def]])
      (simp del: One_nat_def add: literal_str_schema_norm literals_normalized subject_schema_norm
        vocab_schemas_norm)
  show ?thesis
    unfolding Activities_fields_Inr using f1 f2 f3 by simp
qed

lemma model_schema_norm:
  assumes "model_schema flds x = Inr d"
    and "\<And>m. flds m = Inr d \<Longrightarrow>
           flds (map (\<lambda>(k, v). (k, if k \<in> set ks then norm_raw v else v)) m) = Inr d"
  shows "model_schema flds (normalize_group ks x) = Inr d"
  using assms by (cases x) (simp_all add: model_schema_def normalize_group_def)

text \<open>
  C7 (as amended). For every raw mapping that validates, the mapping normalized in
  \<open>favorite_subject\<close>, in the string enumerations and in every element of \<open>sports\<close>,
  \<open>music_genres\<close> and \<open>hobbies\<close>, with \<open>alias\<close> and \<open>hometown\<close> left as they are,
  validates to the same record.
\<close>

theorem validate_normalized_same_record:
  assumes "CannizzaroStudent_init raw = Inr r"
  shows "CannizzaroStudent_init (normalize_validated raw) = Inr r"
proof -
  let ?F = "\<lambda>g x. if g = ''demographics'' then normalize_group [''class_section''] x
                else if g = ''academics'' then normalize_group [''favorite_subject''] x
                else if g = ''behavioral'' then normalize_group [''weekend_style'', ''humor_style''] x
                else if g = ''activities'' then normalize_group [''sports'', ''music_genres'', ''hobbies''] x
                else x"
  have n: "normalize_validated raw = map (\<lambda>(g, x). (g, ?F g x)) raw"
    by (simp add: normalize_validated_def normalize_record_def)
  from assms have g: "demographics_field raw = Inr (demographics r)"
    "academics_field raw = Inr (academics r)" "behavioral_field raw = Inr (behavioral r)"
    "activities_field raw = Inr (activities r)" "digital_metrics_field raw = Inr (digital_metrics r)"
    by (simp_all add: CannizzaroStudent_init_Inr CannizzaroStudent_fields_Inr)
  have "demographics_field (normalize_validated raw) = Inr (demographics r)"
    unfolding n demographics_field_def
    by (rule required_map_values [OF g(1) [unfolded demographics_field_def]])
      (simp, erule model_schema_norm, erule Demographics_fields_norm)
  moreover have "academics_field (normalize_validated raw) = Inr (academics r)"
    unfolding n academics_field_def
    by (rule required_map_values [OF g(2) [unfolded academics_field_def]])
      (simp, erule model_schema_norm, erule Academics_fields_norm)
  moreover have "behavioral_field (normalize_validated raw) = Inr (behavioral r)"
    unfolding n behavioral_field_def
    by (rule required_map_values [OF g(3) [unfolded behavioral_field_def]])
      (simp, erule model_schema_norm, erule Behavioral_fields_norm)
  moreover have "activities_field (normalize_validated raw) = Inr (activities r)"
    unfolding n activities_field_def
    by (rule required_map_values [OF g(4) [unfolded activities_field_def]])
      (simp, erule model_schema_norm, erule Activities_fields_norm)
  moreover have "digital_metrics_field (normalize_validated raw) = Inr (digital_metrics r)"
    unfolding n digital_metrics_field_def
    by (rule required_map_values [OF g(5) [unfolded digital_metrics_field_def]]) simp
  ultimately show ?thesis
    by (simp add: CannizzaroStudent_init_Inr CannizzaroStudent_fields_Inr)
qed

text \<open>The sample mapping, which normalization changes (\<open>Math\<close>, \<open>Soccer\<close>, \<open>TENNIS\<close>).\<close>

theorem validate_normalized_witness:
  "CannizzaroStudent_init sample_raw = Inr sample_student
   \<and> CannizzaroStudent_init (normalize_validated sample_raw) = Inr sample_student
   \<and> normalize_validated sample_raw \<noteq> sample_raw"
proof -
  have a: "CannizzaroStudent_init sample_raw = Inr sample_student" by code_simp
  have b: "normalize_validated sample_raw \<noteq> sample_raw" by code_simp
  from validate_normalized_same_record [OF a] a b show ?thesis by simp
qed

text \<open>C7 as stated fails: with \<open>alias\<close> and \<open>hometown\<close> normalized too, the sample
  mapping validates to another record, with alias \<open>bob\<close> for \<open>Bob\<close>.\<close>

theorem validate_normalize_counterexample:
  "CannizzaroStudent_init sample_raw = Inr sample_student
   \<and> CannizzaroStudent_init (normalize_spec sample_raw)
       = Inr (sample_student\<lparr>demographics :=
               (demographics sample_student)\<lparr>alias_name := ''bob'', hometown := ''catania''\<rparr>\<rparr>)
   \<and> CannizzaroStudent_init (normalize_spec sample_raw) \<noteq> CannizzaroStudent_init sample_raw"
  by code_simp

subsection \<open>The record constructed\<close>

lemma required_Inr_iff:
  "required k schema m = Inr y \<longleftrightarrow> (\<exists>x. map_of m k = Some x \<and> schema x = Inr y)"
  by (auto simp: required_def split: option.splits sum.splits)

lemma int_schema_Inr: "int_schema a b c x = Inr n \<Longrightarrow> x = RInt n"
  by (cases x) (auto simp: int_schema_def split: if_splits)

lemma literal_str_schema_Inr: "literal_str_schema ex x = Inr s \<Longrightarrow> x = RStr s"
  by (cases x) (auto simp: literal_str_schema_def split: if_splits)

lemma literal_int_schema_Inr: "literal_int_schema ex x = Inr n \<Longrightarrow> x = RInt n"
  by (cases x) (auto simp: literal_int_schema_def split: if_splits)

lemma str_schema_Inr: "str_schema a b x = Inr s \<Longrightarrow> x = RStr s"
  by (cases x) (auto simp: str_schema_def split: if_splits)

lemma subject_schema_Inr:
  "field_validator validate_subject (str_schema None None) x = Inr s \<Longrightarrow> norm_raw x = RStr s"
  by (cases x)
    (auto simp: field_validator_def str_schema_def validate_subject_def Let_def norm_raw_def
      split: if_splits)

lemma vocab_schema_Inr:
  assumes "field_validator f (list_str_schema 1) x = Inr v"
    and f: "\<And>xs. f xs = (case raise_first_absent vocab msg (map (\<lambda>s. str_strip (str_lower s)) xs) of
                       Some e \<Rightarrow> Inl e | None \<Rightarrow> Inr (map (\<lambda>s. str_strip (str_lower s)) xs))"
  shows "norm_raw x = RList (map RStr v)"
proof -
  from assms(1) obtain ss where l: "list_str_schema 1 x = Inr ss" and fv: "f ss = Inr v"
    by (auto simp: field_validator_def split: sum.splits value_error.splits)
  from l have x: "x = RList (map RStr ss)" by (simp add: list_str_schema_Inr_eq)
  from fv have v: "v = map (\<lambda>s. str_strip (str_lower s)) ss"
    by (auto simp: f split: option.splits)
  show ?thesis unfolding x v by (rule norm_raw_strings)
qed

lemma vocab_schemas_Inr:
  "field_validator validate_sports (list_str_schema 1) x = Inr v \<Longrightarrow> norm_raw x = RList (map RStr v)"
  "field_validator validate_genres (list_str_schema 1) x = Inr v \<Longrightarrow> norm_raw x = RList (map RStr v)"
  "field_validator validate_hobbies (list_str_schema 1) x = Inr v \<Longrightarrow> norm_raw x = RList (map RStr v)"
proof -
  show "field_validator validate_sports (list_str_schema 1) x = Inr v \<Longrightarrow> norm_raw x = RList (map RStr v)"
    by (rule vocab_schema_Inr [where f = validate_sports and vocab = VALID_SPORTS and msg = sport_msg])
      (simp_all add: validate_sports_def Let_def)
  show "field_validator validate_genres (list_str_schema 1) x = Inr v \<Longrightarrow> norm_raw x = RList (map RStr v)"
    by (rule vocab_schema_Inr [where f = validate_genres and vocab = VALID_MUSIC_GENRES and msg = genre_msg])
      (simp_all add: validate_genres_def Let_def)
  show "field_validator validate_hobbies (list_str_schema 1) x = Inr v \<Longrightarrow> norm_raw x = RList (map RStr v)"
    by (rule vocab_schema_Inr [where f = validate_hobbies and vocab = VALID_HOBBIES and msg = hobby_msg])
      (simp_all add: validate_hobbies_def Let_def)
qed

lemma get_field_group: "map_of raw g = Some (RDict m) \<Longrightarrow> get_field g f raw = map_of m f"
  by (simp add: get_field_def)

lemma declared_constraints_constructed:
  assumes "CannizzaroStudent_init raw = Inr r"
  shows "declared_constraints r"
proof -
  from assms have g: "demographics_field raw = Inr (demographics r)"
    "academics_field raw = Inr (academics r)" "behavioral_field raw = Inr (behavioral r)"
    "activities_field raw = Inr (activities r)" "digital_metrics_field raw = Inr (digital_metrics r)"
    by (simp_all add: CannizzaroStudent_init_Inr CannizzaroStudent_fields_Inr)
  from g(1) obtain md where "Demographics_fields md = Inr (demographics r)"
    by (auto simp: demographics_field_def model_schema_Inr)
  then have d: "3 \<le> length (alias_name (demographics r)) \<and> length (alias_name (demographics r)) \<le> 30"
    "0 \<le> siblings (demographics r) \<and> siblings (demographics r) \<le> 20"
    "0 < commute_time_min (demographics r) \<and> commute_time_min (demographics r) \<le> 180"
    "class_section (demographics r) \<in> set ClassSectionType"
    "2 \<le> length (hometown (demographics r)) \<and> length (hometown (demographics r)) \<le> 50"
    unfolding Demographics_fields_Inr alias_field_def siblings_field_def commute_time_min_field_def
      class_section_field_def hometown_field_def
    by (auto dest: int_field_ge_le_Inr int_field_gt_le_Inr literal_str_field_Inr simp: str_field_Inr)
  from g(2) obtain ma where "Academics_fields ma = Inr (academics r)"
    by (auto simp: academics_field_def model_schema_Inr)
  then have "1 \<le> academic_interest (academics r) \<and> academic_interest (academics r) \<le> 5"
    and fs: "favorite_subject (academics r) \<in> set VALID_SUBJECTS"
    unfolding Academics_fields_Inr academic_interest_field_def
    by (auto dest: int_field_ge_le_Inr favorite_subject_field_Inr)
  then have a: "1 \<le> academic_interest (academics r) \<and> academic_interest (academics r) \<le> 5"
    "favorite_subject (academics r) \<in> set VALID_SUBJECTS"
    "str_strip (str_lower (favorite_subject (academics r))) = favorite_subject (academics r)"
    by (simp_all add: vocabularies_normalized)
  from g(3) obtain mb where "Behavioral_fields mb = Inr (behavioral r)"
    by (auto simp: behavioral_field_def model_schema_Inr)
  then have b: "1 \<le> social_style (behavioral r) \<and> social_style (behavioral r) \<le> 5"
    "weekend_style (behavioral r) \<in> set WeekendStyleType"
    "best_work_time (behavioral r) \<in> set BestWorkTimeType"
    "humor_style (behavioral r) \<in> set HumorStyleType"
    unfolding Behavioral_fields_Inr social_style_field_def weekend_style_field_def
      best_work_time_field_def humor_style_field_def
    by (auto dest: int_field_ge_le_Inr literal_str_field_Inr literal_int_field_Inr)
  from g(4) obtain mact where "Activities_fields mact = Inr (activities r)"
    by (auto simp: activities_field_def model_schema_Inr)
  then have f: "sports_field mact = Inr (sports (activities r))"
    "music_genres_field mact = Inr (music_genres (activities r))"
    "hobbies_field mact = Inr (hobbies (activities r))"
    by (simp_all add: Activities_fields_Inr)
  have s: "sports (activities r) \<noteq> [] \<and> set (sports (activities r)) \<subseteq> set VALID_SPORTS"
    by (rule vocab_field_Inr [OF f(1) [unfolded sports_field_def],
        where msg = sport_msg and nrm = "\<lambda>s. str_strip (str_lower s)"])
      (simp add: validate_sports_def Let_def)
  have m: "music_genres (activities r) \<noteq> [] \<and> set (music_genres (activities r)) \<subseteq> set VALID_MUSIC_GENRES"
    by (rule vocab_field_Inr [OF f(2) [unfolded music_genres_field_def],
        where msg = genre_msg and nrm = "\<lambda>s. str_strip (str_lower s)"])
      (simp add: validate_genres_def Let_def)
  have h: "hobbies (activities r) \<noteq> [] \<and> set (hobbies (activities r)) \<subseteq> set VALID_HOBBIES"
    by (rule vocab_field_Inr [OF f(3) [unfolded hobbies_field_def],
        where msg = hobby_msg and nrm = "\<lambda>s. str_strip (str_lower s)"])
      (simp add: validate_hobbies_def Let_def)
  from g(5) obtain mdm where "DigitalMetrics_fields mdm = Inr (digital_metrics r)"
    by (auto simp: digital_metrics_field_def model_schema_Inr)
  then have dm: "0 \<le> avg_screen_time_min (digital_metrics r) \<and> avg_screen_time_min (digital_metrics r) \<le> 1440"
    "0 \<le> phone_pickups_daily (digital_metrics r) \<and> phone_pickups_daily (digital_metrics r) \<le> 500"
    unfolding DigitalMetrics_fields_Inr avg_screen_time_min_field_def phone_pickups_daily_field_def
    by (auto dest: int_field_ge_le_Inr)
  show ?thesis
    unfolding declared_constraints_def
    using d a b s m h dm by (simp add: normalized_list)
qed

lemma record_holds_input:
  assumes "CannizzaroStudent_init raw = Inr r"
  shows "get_field ''demographics'' ''alias'' raw = Some (RStr (alias_name (demographics r)))
    \<and> get_field ''demographics'' ''siblings'' raw = Some (RInt (siblings (demographics r)))
    \<and> get_field ''demographics'' ''commute_time_min'' raw = Some (RInt (commute_time_min (demographics r)))
    \<and> get_field ''demographics'' ''class_section'' raw = Some (RStr (class_section (demographics r)))
    \<and> get_field ''demographics'' ''hometown'' raw = Some (RStr (hometown (demographics r)))
    \<and> get_field ''academics'' ''academic_interest'' raw = Some (RInt (academic_interest (academics r)))
    \<and> map_option norm_raw (get_field ''academics'' ''favorite_subject'' raw) = Some (RStr (favorite_subject (academics r)))
    \<and> get_field ''behavioral'' ''social_style'' raw = Some (RInt (social_style (behavioral r)))
    \<and> get_field ''behavioral'' ''weekend_style'' raw = Some (RStr (weekend_style (behavioral r)))
    \<and> get_field ''behavioral'' ''best_work_time'' raw = Some (RInt (best_work_time (behavioral r)))
    \<and> get_field ''behavioral'' ''humor_style'' raw = Some (RStr (humor_style (behavioral r)))
    \<and> map_option norm_raw (get_field ''activities'' ''sports'' raw) = Some (RList (map RStr (sports (activities r))))
    \<and> map_option norm_raw (get_field ''activities'' ''music_genres'' raw) = Some (RList (map RStr (music_genres (activities r))))
    \<and> map_option norm_raw (get_field ''activities'' ''hobbies'' raw) = Some (RList (map RStr (hobbies (activities r))))
    \<and> get_field ''digital_metrics'' ''avg_screen_time_min'' raw = Some (RInt (avg_screen_time_min (digital_metrics r)))
    \<and> get_field ''digital_metrics'' ''phone_pickups_daily'' raw = Some (RInt (phone_pickups_daily (digital_metrics r)))"
proof -
  from assms have g: "demographics_field raw = Inr (demographics r)"
    "academics_field raw = Inr (academics r)" "behavioral_field raw = Inr (behavioral r)"
    "activities_field raw = Inr (activities r)" "digital_metrics_field raw = Inr (digital_metrics r)"
    by (simp_all add: CannizzaroStudent_init_Inr CannizzaroStudent_fields_Inr)
  from g(1) obtain md where md: "map_of raw ''demographics'' = Some (RDict md)"
    and "Demographics_fields md = Inr (demographics r)"
    by (auto simp: demographics_field_def model_schema_Inr)
  then have f1: "map_of md ''alias'' = Some (RStr (alias_name (demographics r)))"
    "map_of md ''siblings'' = Some (RInt (siblings (demographics r)))"
    "map_of md ''commute_time_min'' = Some (RInt (commute_time_min (demographics r)))"
    "map_of md ''class_section'' = Some (RStr (class_section (demographics r)))"
    "map_of md ''hometown'' = Some (RStr (hometown (demographics r)))"
    unfolding Demographics_fields_Inr alias_field_def siblings_field_def commute_time_min_field_def class_section_field_def hometown_field_def required_Inr_iff
    by (auto simp del: One_nat_def dest: str_schema_Inr int_schema_Inr literal_str_schema_Inr
        literal_int_schema_Inr subject_schema_Inr vocab_schemas_Inr)
  from g(2) obtain ma where ma: "map_of raw ''academics'' = Some (RDict ma)"
    and "Academics_fields ma = Inr (academics r)"
    by (auto simp: academics_field_def model_schema_Inr)
  then have f2: "map_of ma ''academic_interest'' = Some (RInt (academic_interest (academics r)))"
    "map_option norm_raw (map_of ma ''favorite_subject'') = Some (RStr (favorite_subject (academics r)))"
    unfolding Academics_fields_Inr academic_interest_field_def favorite_subject_field_def required_Inr_iff
    by (auto simp del: One_nat_def dest: str_schema_Inr int_schema_Inr literal_str_schema_Inr
        literal_int_schema_Inr subject_schema_Inr vocab_schemas_Inr)
  from g(3) obtain mb where mb: "map_of raw ''behavioral'' = Some (RDict mb)"
    and "Behavioral_fields mb = Inr (behavioral r)"
    by (auto simp: behavioral_field_def model_schema_Inr)
  then have f3: "map_of mb ''social_style'' = Some (RInt (social_style (behavioral r)))"
    "map_of mb ''weekend_style'' = Some (RStr (weekend_style (behavioral r)))"
    "map_of mb ''best_work_time'' = Some (RInt (best_work_time (behavioral r)))"
    "map_of mb ''humor_style'' = Some (RStr (humor_style (behavioral r)))"
    unfolding Behavioral_fields_Inr social_style_field_def weekend_style_field_def best_work_time_field_def humor_style_field_def required_Inr_iff
    by (auto simp del: One_nat_def dest: str_schema_Inr int_schema_Inr literal_str_schema_Inr
        literal_int_schema_Inr subject_schema_Inr vocab_schemas_Inr)
  from g(4) obtain mact where mact: "map_of raw ''activities'' = Some (RDict mact)"
    and "Activities_fields mact = Inr (activities r)"
    by (auto simp: activities_field_def model_schema_Inr)
  then have f4: "map_option norm_raw (map_of mact ''sports'') = Some (RList (map RStr (sports (activities r))))"
    "map_option norm_raw (map_of mact ''music_genres'') = Some (RList (map RStr (music_genres (activities r))))"
    "map_option norm_raw (map_of mact ''hobbies'') = Some (RList (map RStr (hobbies (activities r))))"
    unfolding Activities_fields_Inr sports_field_def music_genres_field_def hobbies_field_def required_Inr_iff
    by (auto simp del: One_nat_def dest: str_schema_Inr int_schema_Inr literal_str_schema_Inr
        literal_int_schema_Inr subject_schema_Inr vocab_schemas_Inr)
  from g(5) obtain mdm where mdm: "map_of raw ''digital_metrics'' = Some (RDict mdm)"
    and "DigitalMetrics_fields mdm = Inr (digital_metrics r)"
    by (auto simp: digital_metrics_field_def model_schema_Inr)
  then have f5: "map_of mdm ''avg_screen_time_min'' = Some (RInt (avg_screen_time_min (digital_metrics r)))"
    "map_of mdm ''phone_pickups_daily'' = Some (RInt (phone_pickups_daily (digital_metrics r)))"
    unfolding DigitalMetrics_fields_Inr avg_screen_time_min_field_def phone_pickups_daily_field_def required_Inr_iff
    by (auto simp del: One_nat_def dest: str_schema_Inr int_schema_Inr literal_str_schema_Inr
        literal_int_schema_Inr subject_schema_Inr vocab_schemas_Inr)
  show ?thesis
    unfolding get_field_group [OF md] get_field_group [OF ma] get_field_group [OF mb]
      get_field_group [OF mact] get_field_group [OF mdm]
    using f1 f2 f3 f4 f5 by simp
qed

text \<open>
  C9 (as amended). Every student record that construction returns satisfies, when it is
  returned, all the declared constraints, and holds the values of the raw mapping: the
  integers, \<open>alias\<close>, \<open>hometown\<close> and the enumerations as given, \<open>favorite_subject\<close> and
  every element of \<open>sports\<close>, \<open>music_genres\<close> and \<open>hobbies\<close> normalized; so each of the
  three lists is non-empty, in normalized form and within its vocabulary, and
  \<open>favorite_subject\<close> is normalized and in the Subjects vocabulary. The constraints are
  established by construction only: an assignment to an attribute afterwards is not
  validated.
\<close>

theorem constructed_record_satisfies_constraints:
  assumes "CannizzaroStudent_init raw = Inr r"
  shows "declared_constraints r
    \<and> get_field ''demographics'' ''alias'' raw = Some (RStr (alias_name (demographics r)))
    \<and> get_field ''demographics'' ''siblings'' raw = Some (RInt (siblings (demographics r)))
    \<and> get_field ''demographics'' ''commute_time_min'' raw = Some (RInt (commute_time_min (demographics r)))
    \<and> get_field ''demographics'' ''class_section'' raw = Some (RStr (class_section (demographics r)))
    \<and> get_field ''demographics'' ''hometown'' raw = Some (RStr (hometown (demographics r)))
    \<and> get_field ''academics'' ''academic_interest'' raw = Some (RInt (academic_interest (academics r)))
    \<and> map_option norm_raw (get_field ''academics'' ''favorite_subject'' raw) = Some (RStr (favorite_subject (academics r)))
    \<and> get_field ''behavioral'' ''social_style'' raw = Some (RInt (social_style (behavioral r)))
    \<and> get_field ''behavioral'' ''weekend_style'' raw = Some (RStr (weekend_style (behavioral r)))
    \<and> get_field ''behavioral'' ''best_work_time'' raw = Some (RInt (best_work_time (behavioral r)))
    \<and> get_field ''behavioral'' ''humor_style'' raw = Some (RStr (humor_style (behavioral r)))
    \<and> map_option norm_raw (get_field ''activities'' ''sports'' raw) = Some (RList (map RStr (sports (activities r))))
    \<and> map_option norm_raw (get_field ''activities'' ''music_genres'' raw) = Some (RList (map RStr (music_genres (activities r))))
    \<and> map_option norm_raw (get_field ''activities'' ''hobbies'' raw) = Some (RList (map RStr (hobbies (activities r))))
    \<and> get_field ''digital_metrics'' ''avg_screen_time_min'' raw = Some (RInt (avg_screen_time_min (digital_metrics r)))
    \<and> get_field ''digital_metrics'' ''phone_pickups_daily'' raw = Some (RInt (phone_pickups_daily (digital_metrics r)))"
  using declared_constraints_constructed [OF assms] record_holds_input [OF assms] by (rule conjI)

text \<open>The record of the sample mapping, whose sports \<open>Soccer\<close> and \<open>TENNIS\<close> are stored
  normalized.\<close>

theorem constructed_record_witness:
  "CannizzaroStudent_init sample_raw = Inr sample_student \<and> declared_constraints sample_student
   \<and> map_option norm_raw (get_field ''activities'' ''sports'' sample_raw)
       = Some (RList (map RStr (sports (activities sample_student))))
   \<and> sports (activities sample_student) = [''soccer'', ''tennis'']"
proof -
  have a: "CannizzaroStudent_init sample_raw = Inr sample_student" by code_simp
  have b: "sports (activities sample_student) = [''soccer'', ''tennis'']" by code_simp
  from constructed_record_satisfies_constraints [OF a] a b show ?thesis by simp
qed

text \<open>C9 as stated fails: after \<open>student.activities.sports = []\<close>, or after
  \<open>student.demographics.siblings = -5\<close>, the record of the sample mapping violates the
  declared constraints.\<close>

theorem unvalidated_assignment_counterexample:
  "CannizzaroStudent_init sample_raw = Inr sample_student
   \<and> \<not> declared_constraints (assign_sports [] sample_student)
   \<and> \<not> declared_constraints (assign_siblings (- 5) sample_student)"
  by code_simp

subsection \<open>The vocabularies\<close>

text \<open>
  C8 (as amended). The four vocabularies are fixed constants: Sports has 11 entries
  including "none", MusicGenres 14, Hobbies 21 including "none", and Subjects 15 (not 14)
  including "other". The tokens of each vocabulary are pairwise distinct, lower-case and
  free of leading and trailing white space.
\<close>

theorem vocabularies_fixed:
  "length VALID_SPORTS = 11 \<and> ''none'' \<in> set VALID_SPORTS
   \<and> length VALID_MUSIC_GENRES = 14
   \<and> length VALID_HOBBIES = 21 \<and> ''none'' \<in> set VALID_HOBBIES
   \<and> length VALID_SUBJECTS = 15 \<and> ''other'' \<in> set VALID_SUBJECTS
   \<and> distinct VALID_SPORTS \<and> distinct VALID_MUSIC_GENRES
   \<and> distinct VALID_HOBBIES \<and> distinct VALID_SUBJECTS
   \<and> map str_lower VALID_SPORTS = VALID_SPORTS \<and> map str_strip VALID_SPORTS = VALID_SPORTS
   \<and> map str_lower VALID_MUSIC_GENRES = VALID_MUSIC_GENRES
   \<and> map str_strip VALID_MUSIC_GENRES = VALID_MUSIC_GENRES
   \<and> map str_lower VALID_HOBBIES = VALID_HOBBIES \<and> map str_strip VALID_HOBBIES = VALID_HOBBIES
   \<and> map str_lower VALID_SUBJECTS = VALID_SUBJECTS \<and> map str_strip VALID_SUBJECTS = VALID_SUBJECTS"
  by code_simp

text \<open>C8 as stated fails: the Subjects vocabulary does not have 14 entries.\<close>

theorem subjects_cardinality_counterexample: "length VALID_SUBJECTS \<noteq> 14"
  by code_simp

end
